theory Spec2Isabelle
  imports Complex_Main
begin

section \<open>JavaScript values\<close>

text \<open>
  The server is TypeScript, but the tool arguments and every upstream reply are untyped
  JSON (\<open>unknown\<close>, \<open>any\<close>), so the model works on run-time values.

  Scope of the value model:
  \<^item> a JavaScript number is a double: a finite one is given by its rational value, and
    there are the two infinities (\<open>Infinity True\<close> is the positive one) and \<open>NaN\<close>.
    Every operation rounds its exact result to
    the nearest double (see \<open>number_of\<close> below). A number that comes from the host (from
    \<open>JSON.parse\<close>, from the clock, from the conversion of a string) is taken to be a
    double. The negative zero is not told apart from zero: this program prints both as
    \<open>0\<close> and divides by the literals 1000 and 60 only;
  \<^item> a string is a list of \<open>char\<close>;
  \<^item> an object is an association list; the first binding of a key is the one read, and no
    key shadows a member of a built-in prototype (\<open>toString\<close>, \<open>map\<close>, ...).
\<close>

datatype number = Fin rat | Infinity bool | NaN

datatype jsval =
    Undefined
  | Null
  | Bool bool
  | Num number
  | Str string
  | Arr "jsval list"
  | Obj "(string \<times> jsval) list"

text \<open>Everything the source throws is an instance of \<open>Error\<close>; the handler reads its message.\<close>

datatype error = Error string | TypeError string | SyntaxError string

fun message :: "error \<Rightarrow> string" where
  "message (Error m) = m"
| "message (TypeError m) = m"
| "message (SyntaxError m) = m"

type_synonym 'a result = "error + 'a"

definition bindE :: "'a result \<Rightarrow> ('a \<Rightarrow> 'b result) \<Rightarrow> 'b result" where
  "bindE m f = (case m of Inl e \<Rightarrow> Inl e | Inr x \<Rightarrow> f x)"

subsection \<open>The host: what the program takes from its runtime and its surroundings\<close>

record http_response =
  status :: nat
  statusText :: string
  responseText :: string

datatype fetch_result = Rejected string | Responded http_response

record reply =
  elapsed :: nat
  outcome :: fetch_result

datatype payload = NoBody | FormBody "(string \<times> string) list" | JsonBody jsval

record request =
  http_method :: string
  url :: string
  searchParams :: "(string \<times> string) list"
  headers :: "(string \<times> string) list"
  payload :: payload

text \<open>
  A request holds the address that the program gives to \<open>fetch\<close> and, apart from it,
  the query parameters that the program sets on that address, in the order of the source.
  \<open>server\<close> answers a request, given the requests made so far; \<open>elapsed\<close> is how many
  milliseconds the answer takes. \<open>JSON_parse\<close> is \<open>JSON.parse\<close> (\<open>Inl\<close> carries the
  message of the \<open>SyntaxError\<close> it throws), \<open>StringToNumber\<close> the conversion of a string to
  a number, \<open>Number_toString\<close> the printing of a finite number that is not a whole number
  below \<open>2^53\<close>, \<open>toLocaleString\<close> is \<open>new Date(v).toLocaleString()\<close>, and
  \<open>URL_toString s\<close> is \<open>new URL(s).toString()\<close>, the serialisation of the parsed
  address, with the escapes that the parser puts in; it stands where the address holds an
  argument of the call, and the three constant addresses that go through \<open>new URL\<close> are
  written as the source has them. The three environment variables are checked to be set
  before the server starts.
\<close>

record host =
  SPOTIFY_CLIENT_ID :: string
  SPOTIFY_CLIENT_SECRET :: string
  SPOTIFY_REFRESH_TOKEN :: string
  base64 :: "string \<Rightarrow> string"
  JSON_parse :: "string \<Rightarrow> string + jsval"
  StringToNumber :: "string \<Rightarrow> number"
  Number_toString :: "rat \<Rightarrow> string"
  toLocaleString :: "jsval \<Rightarrow> string"
  URL_toString :: "string \<Rightarrow> string"
  server :: "request list \<Rightarrow> request \<Rightarrow> reply"

subsection \<open>Numbers\<close>

definition digit :: "nat \<Rightarrow> char" where
  "digit n = ''0123456789'' ! n"

fun digits :: "nat \<Rightarrow> string" where
  "digits n = (if n < 10 then [digit n] else digits (n div 10) @ [digit (n mod 10)])"

declare digits.simps [simp del]

definition int_toString :: "int \<Rightarrow> string" where
  "int_toString i = (if i < 0 then ''-'' else '''') @ digits (nat \<bar>i\<bar>)"

definition is_integer :: "rat \<Rightarrow> bool" where
  "is_integer r = (of_int \<lfloor>r\<rfloor> = r)"

text \<open>
  Rounding to the nearest double. \<open>ilog2 n\<close> is the position of the leading bit of a
  positive whole number, \<open>expo r\<close> the binary exponent of a positive rational: \<open>2^(expo r)
  \<le> r < 2^(expo r + 1)\<close>. The doubles around \<open>r\<close> are the multiples of \<open>ulp r\<close>, which
  leaves 53 bits to the significand and is \<open>2^-1074\<close> in the subnormal range.
  \<open>nearest r\<close> is the nearest multiple, and of two that are equally near the even one.
  A result whose binary exponent reaches 1024, that is whose magnitude reaches \<open>2^1024\<close>,
  is an infinity.
\<close>

function ilog2 :: "int \<Rightarrow> nat" where
  "ilog2 n = (if n < 2 then 0 else Suc (ilog2 (n div 2)))"
  by auto

termination
  by (relation "measure nat") auto

declare ilog2.simps [simp del]

definition expo :: "rat \<Rightarrow> int" where
  "expo r = (if 1 \<le> r then int (ilog2 \<lfloor>r\<rfloor>) else - int (ilog2 (\<lceil>1 / r\<rceil> - 1)) - 1)"

definition ulp :: "rat \<Rightarrow> rat" where
  "ulp r = 2 powi (max (expo \<bar>r\<bar>) (- 1022) - 52)"

definition round_even :: "rat \<Rightarrow> int" where
  "round_even x =
     (let f = \<lfloor>x\<rfloor>; d = x - of_int f
      in if d < 1 / 2 then f else if 1 / 2 < d then f + 1 else if even f then f else f + 1)"

definition nearest :: "rat \<Rightarrow> rat" where
  "nearest r = (if r = 0 then 0 else of_int (round_even (r / ulp r)) * ulp r)"

definition number_of :: "rat \<Rightarrow> number" where
  "number_of r =
     (let d = nearest r in if d \<noteq> 0 \<and> 1024 \<le> expo \<bar>d\<bar> then Infinity (0 < r) else Fin d)"

text \<open>
  \<open>Number.prototype.toString\<close>: decimal digits for a whole number below \<open>2^53\<close>; what
  the shortest-digits algorithm prints for the other finite numbers is left to the host.
\<close>

definition num_toString :: "host \<Rightarrow> number \<Rightarrow> string" where
  "num_toString h n =
     (case n of
        NaN \<Rightarrow> ''NaN''
      | Infinity s \<Rightarrow> (if s then ''Infinity'' else ''-Infinity'')
      | Fin r \<Rightarrow>
          if is_integer r \<and> \<bar>r\<bar> < 2 ^ 53 then int_toString \<lfloor>r\<rfloor> else Number_toString h r)"

text \<open>The operators \<open>+\<close> and \<open>*\<close> on numbers.\<close>

fun num_add :: "number \<Rightarrow> number \<Rightarrow> number" where
  "num_add (Fin a) (Fin b) = number_of (a + b)"
| "num_add (Fin a) (Infinity t) = Infinity t"
| "num_add (Infinity s) (Fin b) = Infinity s"
| "num_add (Infinity s) (Infinity t) = (if s = t then Infinity s else NaN)"
| "num_add _ _ = NaN"

fun num_mul :: "number \<Rightarrow> number \<Rightarrow> number" where
  "num_mul (Fin a) (Fin b) = number_of (a * b)"
| "num_mul (Fin a) (Infinity t) = (if a = 0 then NaN else Infinity (t = (0 < a)))"
| "num_mul (Infinity s) (Fin b) = (if b = 0 then NaN else Infinity (s = (0 < b)))"
| "num_mul (Infinity s) (Infinity t) = Infinity (s = t)"
| "num_mul _ _ = NaN"

text \<open>The operator \<open>/\<close>. The only divisors in the source are the literals 1000 and 60.\<close>

fun num_div :: "number \<Rightarrow> number \<Rightarrow> number" where
  "num_div (Fin a) (Fin b) =
     (if b = 0 then (if a = 0 then NaN else Infinity (0 < a)) else number_of (a / b))"
| "num_div (Fin a) (Infinity t) = Fin 0"
| "num_div (Infinity s) (Fin b) = Infinity (s = (0 \<le> b))"
| "num_div _ _ = NaN"

text \<open>
  The remainder \<open>%\<close> takes the sign of the dividend. It is exact: the remainder of two
  doubles is a double.
\<close>

fun num_rem :: "number \<Rightarrow> number \<Rightarrow> number" where
  "num_rem (Fin a) (Fin b) =
     (if b = 0 then NaN else Fin (a - b * (sgn (a / b) * of_int \<lfloor>\<bar>a / b\<bar>\<rfloor>)))"
| "num_rem (Fin a) (Infinity t) = Fin a"
| "num_rem _ _ = NaN"

fun Math_floor :: "number \<Rightarrow> number" where
  "Math_floor (Fin a) = Fin (of_int \<lfloor>a\<rfloor>)"
| "Math_floor (Infinity s) = Infinity s"
| "Math_floor NaN = NaN"

fun num_gt :: "number \<Rightarrow> number \<Rightarrow> bool" where
  "num_gt (Fin a) (Fin b) = (a > b)"
| "num_gt (Fin a) (Infinity t) = (\<not> t)"
| "num_gt (Infinity s) (Fin b) = s"
| "num_gt (Infinity s) (Infinity t) = (s \<and> \<not> t)"
| "num_gt _ _ = False"

fun num_min :: "number \<Rightarrow> number \<Rightarrow> number" where
  "num_min (Fin a) (Fin b) = Fin (min a b)"
| "num_min (Fin a) (Infinity t) = (if t then Fin a else Infinity False)"
| "num_min (Infinity s) (Fin b) = (if s then Fin b else Infinity False)"
| "num_min (Infinity s) (Infinity t) = Infinity (s \<and> t)"
| "num_min _ _ = NaN"

subsection \<open>Strings\<close>

definition padStart :: "nat \<Rightarrow> char \<Rightarrow> string \<Rightarrow> string" where
  "padStart n c s = replicate (n - length s) c @ s"

fun join :: "string \<Rightarrow> string list \<Rightarrow> string" where
  "join sep [] = ''''"
| "join sep [x] = x"
| "join sep (x # y # ys) = x @ sep @ join sep (y # ys)"

definition dq :: string where
  "dq = [CHR 0x22]"

definition nl :: string where
  "nl = [CHR 0x0A]"

subsection \<open>Conversions and operators\<close>

fun truthy :: "jsval \<Rightarrow> bool" where
  "truthy Undefined = False"
| "truthy Null = False"
| "truthy (Bool b) = b"
| "truthy (Num (Fin r)) = (r \<noteq> 0)"
| "truthy (Num (Infinity s)) = True"
| "truthy (Num NaN) = False"
| "truthy (Str s) = (s \<noteq> [])"
| "truthy (Arr xs) = True"
| "truthy (Obj kvs) = True"

fun ToString :: "host \<Rightarrow> jsval \<Rightarrow> string" where
  "ToString h Undefined = ''undefined''"
| "ToString h Null = ''null''"
| "ToString h (Bool b) = (if b then ''true'' else ''false'')"
| "ToString h (Num n) = num_toString h n"
| "ToString h (Str s) = s"
| "ToString h (Arr xs) =
     join '','' (map (\<lambda>x. if x = Undefined \<or> x = Null then '''' else ToString h x) xs)"
| "ToString h (Obj kvs) = ''[object Object]''"

fun ToPrimitive :: "host \<Rightarrow> jsval \<Rightarrow> jsval" where
  "ToPrimitive h (Arr xs) = Str (ToString h (Arr xs))"
| "ToPrimitive h (Obj kvs) = Str (ToString h (Obj kvs))"
| "ToPrimitive h v = v"

fun ToNumber :: "host \<Rightarrow> jsval \<Rightarrow> number" where
  "ToNumber h Undefined = NaN"
| "ToNumber h Null = Fin 0"
| "ToNumber h (Bool b) = Fin (if b then 1 else 0)"
| "ToNumber h (Num n) = n"
| "ToNumber h (Str s) = StringToNumber h s"
| "ToNumber h v = StringToNumber h (ToString h v)"

fun is_Str :: "jsval \<Rightarrow> bool" where
  "is_Str (Str s) = True"
| "is_Str _ = False"

text \<open>The operator \<open>+\<close>: concatenation as soon as one side is a string.\<close>

definition js_plus :: "host \<Rightarrow> jsval \<Rightarrow> jsval \<Rightarrow> jsval" where
  "js_plus h a b =
     (let pa = ToPrimitive h a; pb = ToPrimitive h b
      in if is_Str pa \<or> is_Str pb then Str (ToString h pa @ ToString h pb)
         else Num (num_add (ToNumber h pa) (ToNumber h pb)))"

text \<open>\<open>v > k\<close> and \<open>v === k\<close> for a number literal \<open>k\<close>, and \<open>Math.min(v, k)\<close>.\<close>

definition gt_literal :: "host \<Rightarrow> jsval \<Rightarrow> rat \<Rightarrow> bool" where
  "gt_literal h v k = num_gt (ToNumber h (ToPrimitive h v)) (Fin k)"

definition strict_eq_literal :: "jsval \<Rightarrow> rat \<Rightarrow> bool" where
  "strict_eq_literal v k = (v = Num (Fin k))"

definition Math_min :: "host \<Rightarrow> jsval \<Rightarrow> rat \<Rightarrow> number" where
  "Math_min h v k = num_min (ToNumber h v) (Fin k)"

text \<open>A parameter or destructuring default applies to \<open>undefined\<close> only.\<close>

definition default_to :: "jsval \<Rightarrow> jsval \<Rightarrow> jsval" where
  "default_to d v = (if v = Undefined then d else v)"

subsection \<open>Properties and methods\<close>

definition cannot_read :: "string \<Rightarrow> string \<Rightarrow> error" where
  "cannot_read what k =
     TypeError (''Cannot read properties of '' @ what @ '' (reading '' @ [CHR 0x27] @ k @ [CHR 0x27] @ '')'')"

definition not_a_function :: "string \<Rightarrow> error" where
  "not_a_function expr = TypeError (expr @ '' is not a function'')"

text \<open>\<open>v.k\<close>: reading a property of \<open>undefined\<close> or \<open>null\<close> throws.\<close>

fun get :: "jsval \<Rightarrow> string \<Rightarrow> jsval result" where
  "get Undefined k = Inl (cannot_read ''undefined'' k)"
| "get Null k = Inl (cannot_read ''null'' k)"
| "get (Obj kvs) k = Inr (case map_of kvs k of Some v \<Rightarrow> v | None \<Rightarrow> Undefined)"
| "get (Arr xs) k = Inr (if k = ''length'' then Num (Fin (of_nat (length xs))) else Undefined)"
| "get (Str s) k = Inr (if k = ''length'' then Num (Fin (of_nat (length s))) else Undefined)"
| "get v k = Inr Undefined"

text \<open>
  \<open>typeof v === "object"\<close>, \<open>Array.isArray(v)\<close>, \<open>typeof v === "string"\<close> and \<open>k in v\<close>
  (the source applies \<open>in\<close> after the \<open>typeof\<close> test, to keys that no array has).
\<close>

fun typeof_object :: "jsval \<Rightarrow> bool" where
  "typeof_object Null = True"
| "typeof_object (Arr xs) = True"
| "typeof_object (Obj kvs) = True"
| "typeof_object _ = False"

fun isArray :: "jsval \<Rightarrow> bool" where
  "isArray (Arr xs) = True"
| "isArray _ = False"

fun has_key :: "string \<Rightarrow> jsval \<Rightarrow> bool" where
  "has_key k (Obj kvs) = (k \<in> set (map fst kvs))"
| "has_key k _ = False"

text \<open>\<open>v.map(f)\<close> with the index, left to right; the first callback that throws ends it.\<close>

fun map_from :: "nat \<Rightarrow> (jsval \<Rightarrow> nat \<Rightarrow> 'a result) \<Rightarrow> jsval list \<Rightarrow> 'a list result" where
  "map_from i f [] = Inr []"
| "map_from i f (x # xs) =
     bindE (f x i) (\<lambda>y. bindE (map_from (Suc i) f xs) (\<lambda>ys. Inr (y # ys)))"

fun js_map :: "string \<Rightarrow> jsval \<Rightarrow> (jsval \<Rightarrow> nat \<Rightarrow> 'a result) \<Rightarrow> 'a list result" where
  "js_map expr Undefined f = Inl (cannot_read ''undefined'' ''map'')"
| "js_map expr Null f = Inl (cannot_read ''null'' ''map'')"
| "js_map expr (Arr xs) f = map_from 0 f xs"
| "js_map expr v f = Inl (not_a_function (expr @ ''.map''))"

text \<open>\<open>v.join(sep)\<close> and \<open>v.toString()\<close> on a value of unknown type.\<close>

definition join_values :: "host \<Rightarrow> string \<Rightarrow> jsval list \<Rightarrow> string" where
  "join_values h sep xs =
     join sep (map (\<lambda>x. if x = Undefined \<or> x = Null then '''' else ToString h x) xs)"

fun js_join :: "host \<Rightarrow> string \<Rightarrow> jsval \<Rightarrow> string \<Rightarrow> string result" where
  "js_join h expr Undefined sep = Inl (cannot_read ''undefined'' ''join'')"
| "js_join h expr Null sep = Inl (cannot_read ''null'' ''join'')"
| "js_join h expr (Arr xs) sep = Inr (join_values h sep xs)"
| "js_join h expr v sep = Inl (not_a_function (expr @ ''.join''))"

fun js_toString :: "host \<Rightarrow> jsval \<Rightarrow> string result" where
  "js_toString h Undefined = Inl (cannot_read ''undefined'' ''toString'')"
| "js_toString h Null = Inl (cannot_read ''null'' ''toString'')"
| "js_toString h v = Inr (ToString h v)"

section \<open>src/spotify-api.ts\<close>

subsection \<open>formatDuration\<close>

definition formatDuration :: "host \<Rightarrow> number \<Rightarrow> string" where
  "formatDuration h ms =
     (let totalSeconds = Math_floor (num_div ms (Fin 1000));
          minutes = Math_floor (num_div totalSeconds (Fin 60));
          seconds = num_rem totalSeconds (Fin 60)
      in num_toString h minutes @ '':'' @ padStart 2 (CHR ''0'') (num_toString h seconds))"

subsection \<open>The credential cache and the network\<close>

text \<open>
  The two module-level variables, the clock read by \<open>Date.now()\<close> and the requests sent so
  far. \<open>accessToken\<close> is declared a string, but it is assigned from untyped JSON.
  One call runs at a time, and time passes only while a request is awaited. The
  \<open>console.error\<close> lines of the source write a log and are left out.
\<close>

record world =
  accessToken :: jsval
  tokenExpiryTime :: number
  clock :: int
  calls :: "request list"

type_synonym 'a action = "world \<Rightarrow> 'a result \<times> world"

definition returnA :: "'a \<Rightarrow> 'a action" where
  "returnA x w = (Inr x, w)"

definition throwA :: "error \<Rightarrow> 'a action" where
  "throwA e w = (Inl e, w)"

definition liftA :: "'a result \<Rightarrow> 'a action" where
  "liftA r w = (r, w)"

definition bindA :: "'a action \<Rightarrow> ('a \<Rightarrow> 'b action) \<Rightarrow> 'b action" where
  "bindA m f w = (case m w of (Inl e, w') \<Rightarrow> (Inl e, w') | (Inr x, w') \<Rightarrow> f x w')"

definition Date_now :: "world \<Rightarrow> number" where
  "Date_now w = Fin (of_int (clock w))"

definition fetch :: "host \<Rightarrow> request \<Rightarrow> http_response action" where
  "fetch h rq w =
     (let r = server h (calls w) rq;
          w' = w\<lparr>clock := clock w + int (elapsed r), calls := calls w @ [rq]\<rparr>
      in case outcome r of
           Rejected m \<Rightarrow> (Inl (TypeError m), w')
         | Responded response \<Rightarrow> (Inr response, w'))"

definition ok :: "http_response \<Rightarrow> bool" where
  "ok response = (200 \<le> status response \<and> status response \<le> 299)"

text \<open>\<open>response.json()\<close>.\<close>

definition json :: "host \<Rightarrow> http_response \<Rightarrow> jsval result" where
  "json h response =
     (case JSON_parse h (responseText response) of
        Inl m \<Rightarrow> Inl (SyntaxError m)
      | Inr data \<Rightarrow> Inr data)"

text \<open>The error every operation throws on a reply that is not 2xx.\<close>

definition api_error :: "http_response \<Rightarrow> error" where
  "api_error response =
     Error (''Spotify API error: '' @ digits (status response) @ '' '' @ statusText response
            @ nl @ responseText response)"

definition bearer :: "host \<Rightarrow> jsval \<Rightarrow> string \<times> string" where
  "bearer h token = (''Authorization'', ''Bearer '' @ ToString h token)"

subsection \<open>getAccessToken\<close>

definition token_request :: "host \<Rightarrow> request" where
  "token_request h =
     \<lparr>http_method = ''POST'',
      url = ''https://accounts.spotify.com/api/token'',
      searchParams = [],
      headers = [(''Content-Type'', ''application/x-www-form-urlencoded''),
                 (''Authorization'',
                  ''Basic '' @ base64 h (SPOTIFY_CLIENT_ID h @ '':'' @ SPOTIFY_CLIENT_SECRET h))],
      payload = FormBody [(''grant_type'', ''refresh_token''),
                          (''refresh_token'', SPOTIFY_REFRESH_TOKEN h)]\<rparr>"

text \<open>The literal \<open>0.9\<close> is the double nearest to nine tenths.\<close>

definition getAccessToken :: "host \<Rightarrow> jsval action" where
  "getAccessToken h w =
     (if truthy (accessToken w) \<and> num_gt (tokenExpiryTime w) (Date_now w)
      then (Inr (accessToken w), w)
      else
        case fetch h (token_request h) w of
          (Inl e, w1) \<Rightarrow> (Inl e, w1)
        | (Inr response, w1) \<Rightarrow>
            if \<not> ok response
            then (Inl (Error (''Failed to get access token: '' @ digits (status response) @ '' ''
                              @ statusText response @ nl @ responseText response)), w1)
            else
              case JSON_parse h (responseText response) of
                Inl m \<Rightarrow> (Inl (SyntaxError m), w1)
              | Inr data \<Rightarrow>
                  (case get data ''access_token'' of
                     Inl e \<Rightarrow> (Inl e, w1)
                   | Inr token \<Rightarrow>
                       let w2 = w1\<lparr>accessToken := token\<rparr>
                       in case get data ''expires_in'' of
                            Inl e \<Rightarrow> (Inl e, w2)
                          | Inr expires_in \<Rightarrow>
                              let w3 = w2\<lparr>tokenExpiryTime :=
                                     num_add (Date_now w2)
                                       (num_mul (num_mul (ToNumber h expires_in) (Fin 1000))
                                          (number_of (9 / 10)))\<rparr>
                              in (Inr (accessToken w3), w3)))"

subsection \<open>searchTracks\<close>

text \<open>\<open>track.artists.map((a) => a.name).join(", ")\<close>.\<close>

definition artist_names :: "host \<Rightarrow> jsval \<Rightarrow> string result" where
  "artist_names h track =
     bindE (get track ''artists'') (\<lambda>artists.
     bindE (js_map ''track.artists'' artists (\<lambda>a index. get a ''name'')) (\<lambda>names.
     Inr (join_values h '', '' names)))"

text \<open>
  The callback that prints one track, the same text in \<open>searchTracks\<close> and in
  \<open>getRecommendations\<close>. The placeholders are evaluated from left to right.
\<close>

definition track_line :: "host \<Rightarrow> jsval \<Rightarrow> nat \<Rightarrow> string result" where
  "track_line h track index =
     bindE (get track ''name'') (\<lambda>name.
     bindE (artist_names h track) (\<lambda>artists.
     bindE (get track ''album'') (\<lambda>album.
     bindE (get album ''name'') (\<lambda>album_name.
     bindE (get track ''duration_ms'') (\<lambda>duration_ms.
     bindE (get track ''uri'') (\<lambda>uri.
     bindE (get track ''id'') (\<lambda>id.
     bindE (get track ''popularity'') (\<lambda>popularity.
     Inr (digits (index + 1) @ ''. '' @ dq @ ToString h name @ dq @ '' by '' @ artists @ nl
          @ ''   Album: '' @ ToString h album_name @ nl
          @ ''   Duration: '' @ formatDuration h (ToNumber h duration_ms) @ nl
          @ ''   Spotify URI: '' @ ToString h uri @ nl
          @ ''   Track ID: '' @ ToString h id @ nl
          @ ''   Popularity: '' @ ToString h popularity @ ''/100'' @ nl
          @ ''  '')))))))))"

text \<open>What \<open>searchTracks\<close> makes of the parsed reply.\<close>

definition search_text :: "host \<Rightarrow> jsval \<Rightarrow> jsval \<Rightarrow> string result" where
  "search_text h query data =
     bindE (get data ''tracks'') (\<lambda>tracks.
     if \<not> truthy tracks then Inr ''No tracks found matching your query.''
     else
       bindE (get tracks ''items'') (\<lambda>items.
       if \<not> truthy items then Inr ''No tracks found matching your query.''
       else
         bindE (get items ''length'') (\<lambda>len.
         if strict_eq_literal len 0 then Inr ''No tracks found matching your query.''
         else
           bindE (js_map ''data.tracks.items'' items (track_line h)) (\<lambda>lines.
           Inr (''Found '' @ ToString h len @ '' tracks matching '' @ dq @ ToString h query
                @ dq @ '':'' @ nl @ nl @ join (nl @ nl) lines)))))"

definition search_request :: "host \<Rightarrow> jsval \<Rightarrow> jsval \<Rightarrow> jsval \<Rightarrow> request" where
  "search_request h token query limit =
     \<lparr>http_method = ''GET'',
      url = ''https://api.spotify.com/v1/search'',
      searchParams = [(''q'', ToString h query), (''type'', ''track''),
                      (''limit'', num_toString h (Math_min h limit 50))],
      headers = [bearer h token],
      payload = NoBody\<rparr>"

definition searchTracks :: "host \<Rightarrow> jsval \<Rightarrow> jsval \<Rightarrow> string action" where
  "searchTracks h query limit0 =
     (let limit = default_to (Num (Fin 10)) limit0
      in bindA (getAccessToken h) (\<lambda>token.
         bindA (fetch h (search_request h token query limit)) (\<lambda>response.
         if \<not> ok response then throwA (api_error response)
         else bindA (liftA (json h response)) (\<lambda>data.
              liftA (search_text h query data)))))"

subsection \<open>getRecommendations\<close>

text \<open>\<open>seed_tracks.length + seed_artists.length + seed_genres.length\<close>.\<close>

definition seed_count :: "host \<Rightarrow> jsval \<Rightarrow> jsval \<Rightarrow> jsval \<Rightarrow> jsval result" where
  "seed_count h seed_tracks seed_artists seed_genres =
     bindE (get seed_tracks ''length'') (\<lambda>a.
     bindE (get seed_artists ''length'') (\<lambda>b.
     bindE (get seed_genres ''length'') (\<lambda>c.
     Inr (js_plus h (js_plus h a b) c))))"

text \<open>\<open>if (seeds.length > 0) url.searchParams.set(key, seeds.join(","))\<close>.\<close>

definition seed_param :: "host \<Rightarrow> string \<Rightarrow> jsval \<Rightarrow> (string \<times> string) list result" where
  "seed_param h key seeds =
     bindE (get seeds ''length'') (\<lambda>len.
     if gt_literal h len 0
     then bindE (js_join h key seeds '','') (\<lambda>s. Inr [(key, s)])
     else Inr [])"

text \<open>\<open>if (target !== undefined) url.searchParams.set(key, target.toString())\<close>.\<close>

definition target_param :: "host \<Rightarrow> string \<Rightarrow> jsval \<Rightarrow> (string \<times> string) list result" where
  "target_param h key target =
     (if target \<noteq> Undefined then bindE (js_toString h target) (\<lambda>s. Inr [(key, s)])
      else Inr [])"

text \<open>\<open>if (seeds.length > 0) seedInfo += `Label: ${seeds.join(", ")}\n`\<close>.\<close>

definition seed_info :: "host \<Rightarrow> string \<Rightarrow> string \<Rightarrow> jsval \<Rightarrow> string result" where
  "seed_info h label key seeds =
     bindE (get seeds ''length'') (\<lambda>len.
     if gt_literal h len 0
     then bindE (js_join h key seeds '', '') (\<lambda>s. Inr (label @ s @ nl))
     else Inr '''')"

definition recommendations_text ::
    "host \<Rightarrow> jsval \<Rightarrow> jsval \<Rightarrow> jsval \<Rightarrow> jsval \<Rightarrow> string result" where
  "recommendations_text h seed_tracks seed_artists seed_genres data =
     bindE (get data ''tracks'') (\<lambda>tracks.
     if \<not> truthy tracks then Inr ''No recommendations found with your criteria.''
     else
       bindE (get tracks ''length'') (\<lambda>len.
       if strict_eq_literal len 0 then Inr ''No recommendations found with your criteria.''
       else
         bindE (js_map ''data.tracks'' tracks (track_line h)) (\<lambda>lines.
         bindE (seed_info h ''Track Seeds: '' ''seed_tracks'' seed_tracks) (\<lambda>i1.
         bindE (seed_info h ''Artist Seeds: '' ''seed_artists'' seed_artists) (\<lambda>i2.
         bindE (seed_info h ''Genre Seeds: '' ''seed_genres'' seed_genres) (\<lambda>i3.
         Inr (''Recommendations based on:'' @ nl @ (i1 @ i2 @ i3) @ nl @ nl
              @ join (nl @ nl) lines)))))))"

definition recommendations_request :: "host \<Rightarrow> jsval \<Rightarrow> (string \<times> string) list \<Rightarrow> request" where
  "recommendations_request h token ps =
     \<lparr>http_method = ''GET'',
      url = ''https://api.spotify.com/v1/recommendations'',
      searchParams = ps,
      headers = [bearer h token],
      payload = NoBody\<rparr>"

definition recommendations_params ::
    "host \<Rightarrow> jsval \<Rightarrow> jsval \<Rightarrow> jsval \<Rightarrow> jsval \<Rightarrow> jsval \<Rightarrow> jsval \<Rightarrow> jsval
     \<Rightarrow> (string \<times> string) list result" where
  "recommendations_params h seed_tracks seed_artists seed_genres limit
       target_energy target_danceability target_tempo =
     bindE (seed_param h ''seed_tracks'' seed_tracks) (\<lambda>p1.
     bindE (seed_param h ''seed_artists'' seed_artists) (\<lambda>p2.
     bindE (seed_param h ''seed_genres'' seed_genres) (\<lambda>p3.
     bindE (target_param h ''target_energy'' target_energy) (\<lambda>t1.
     bindE (target_param h ''target_danceability'' target_danceability) (\<lambda>t2.
     bindE (target_param h ''target_tempo'' target_tempo) (\<lambda>t3.
     Inr (p1 @ p2 @ p3 @ [(''limit'', num_toString h (Math_min h limit 100))]
          @ t1 @ t2 @ t3)))))))"

text \<open>
  The parameter is destructured first, each seed list with the default \<open>[]\<close> and the
  limit with the default 20. (On \<open>null\<close> the destructuring throws a \<open>TypeError\<close>, as
  the reading of a property does, with another message; the handler passes an object.)
\<close>

definition getRecommendations :: "host \<Rightarrow> jsval \<Rightarrow> string action" where
  "getRecommendations h params =
     bindA (liftA (get params ''seed_tracks'')) (\<lambda>v1.
     bindA (liftA (get params ''seed_artists'')) (\<lambda>v2.
     bindA (liftA (get params ''seed_genres'')) (\<lambda>v3.
     bindA (liftA (get params ''limit'')) (\<lambda>v4.
     bindA (liftA (get params ''target_energy'')) (\<lambda>target_energy.
     bindA (liftA (get params ''target_danceability'')) (\<lambda>target_danceability.
     bindA (liftA (get params ''target_tempo'')) (\<lambda>target_tempo.
     let seed_tracks = default_to (Arr []) v1;
         seed_artists = default_to (Arr []) v2;
         seed_genres = default_to (Arr []) v3;
         limit = default_to (Num (Fin 20)) v4
     in bindA (liftA (seed_count h seed_tracks seed_artists seed_genres)) (\<lambda>n.
        if strict_eq_literal n 0
        then throwA (Error ''At least one seed track, artist, or genre is required'')
        else if gt_literal h n 5
        then throwA (Error
               ''You can only use a total of 5 seeds (tracks, artists, and genres combined)'')
        else
          bindA (getAccessToken h) (\<lambda>token.
          bindA (liftA (recommendations_params h seed_tracks seed_artists seed_genres limit
                          target_energy target_danceability target_tempo)) (\<lambda>ps.
          bindA (fetch h (recommendations_request h token ps)) (\<lambda>response.
          if \<not> ok response then throwA (api_error response)
          else bindA (liftA (json h response)) (\<lambda>data.
               liftA (recommendations_text h seed_tracks seed_artists seed_genres
                        data)))))))))))))"

subsection \<open>createPlaylist\<close>

definition me_request :: "host \<Rightarrow> jsval \<Rightarrow> request" where
  "me_request h token =
     \<lparr>http_method = ''GET'',
      url = ''https://api.spotify.com/v1/me'',
      searchParams = [],
      headers = [bearer h token],
      payload = NoBody\<rparr>"

definition create_request :: "host \<Rightarrow> jsval \<Rightarrow> jsval \<Rightarrow> jsval \<Rightarrow> jsval \<Rightarrow> jsval \<Rightarrow> request" where
  "create_request h token userId name description isPublic =
     \<lparr>http_method = ''POST'',
      url = ''https://api.spotify.com/v1/users/'' @ ToString h userId @ ''/playlists'',
      searchParams = [],
      headers = [bearer h token, (''Content-Type'', ''application/json'')],
      payload = JsonBody (Obj [(''name'', name), (''description'', description),
                               (''public'', isPublic)])\<rparr>"

definition created_text :: "host \<Rightarrow> jsval \<Rightarrow> jsval \<Rightarrow> string result" where
  "created_text h name data =
     bindE (get data ''id'') (\<lambda>id.
     bindE (get data ''external_urls'') (\<lambda>external_urls.
     bindE (get external_urls ''spotify'') (\<lambda>spotify.
     Inr (''Successfully created playlist '' @ dq @ ToString h name @ dq @ ''!'' @ nl
          @ ''  Playlist ID: '' @ ToString h id @ nl
          @ ''  Playlist URL: '' @ ToString h spotify @ nl
          @ ''  Now you can add tracks to this playlist using the spotify_add_tracks_to_playlist tool.''))))"

definition createPlaylist :: "host \<Rightarrow> jsval \<Rightarrow> jsval \<Rightarrow> jsval \<Rightarrow> string action" where
  "createPlaylist h name description0 isPublic0 =
     (let description = default_to (Str '''') description0;
          isPublic = default_to (Bool False) isPublic0
      in bindA (getAccessToken h) (\<lambda>token.
         bindA (fetch h (me_request h token)) (\<lambda>userResponse.
         if \<not> ok userResponse then throwA (api_error userResponse)
         else bindA (liftA (json h userResponse)) (\<lambda>userData.
              bindA (liftA (get userData ''id'')) (\<lambda>userId.
              bindA (fetch h (create_request h token userId name description isPublic)) (\<lambda>response.
              if \<not> ok response then throwA (api_error response)
              else bindA (liftA (json h response)) (\<lambda>data.
                   liftA (created_text h name data))))))))"

subsection \<open>addTracksToPlaylist\<close>

text \<open>The address goes through \<open>new URL(...)\<close> and \<open>url.toString()\<close>.\<close>

definition add_tracks_request :: "host \<Rightarrow> jsval \<Rightarrow> jsval \<Rightarrow> jsval \<Rightarrow> jsval \<Rightarrow> request" where
  "add_tracks_request h token playlistId trackUris position =
     \<lparr>http_method = ''POST'',
      url = URL_toString h
              (''https://api.spotify.com/v1/playlists/'' @ ToString h playlistId @ ''/tracks''),
      searchParams = [],
      headers = [bearer h token, (''Content-Type'', ''application/json'')],
      payload = JsonBody (Obj ((''uris'', trackUris)
                  # (if position \<noteq> Undefined then [(''position'', position)] else [])))\<rparr>"

definition added_text :: "host \<Rightarrow> jsval \<Rightarrow> jsval \<Rightarrow> string result" where
  "added_text h trackUris data =
     bindE (get trackUris ''length'') (\<lambda>len.
     bindE (get data ''snapshot_id'') (\<lambda>snapshot_id.
     Inr (''Successfully added '' @ ToString h len @ '' track(s) to the playlist!'' @ nl
          @ ''  Snapshot ID: '' @ ToString h snapshot_id)))"

definition addTracksToPlaylist :: "host \<Rightarrow> jsval \<Rightarrow> jsval \<Rightarrow> jsval \<Rightarrow> string action" where
  "addTracksToPlaylist h playlistId trackUris position =
     bindA (getAccessToken h) (\<lambda>token.
     bindA (fetch h (add_tracks_request h token playlistId trackUris position)) (\<lambda>response.
     if \<not> ok response then throwA (api_error response)
     else bindA (liftA (json h response)) (\<lambda>data.
          liftA (added_text h trackUris data))))"

subsection \<open>getUserPlaylists\<close>

definition playlist_line :: "host \<Rightarrow> jsval \<Rightarrow> nat \<Rightarrow> string result" where
  "playlist_line h playlist index =
     bindE (get playlist ''name'') (\<lambda>name.
     bindE (get playlist ''description'') (\<lambda>description.
     bindE (get playlist ''tracks'') (\<lambda>tracks.
     bindE (get tracks ''total'') (\<lambda>total.
     bindE (get playlist ''public'') (\<lambda>public.
     bindE (get playlist ''id'') (\<lambda>id.
     bindE (get playlist ''external_urls'') (\<lambda>external_urls.
     bindE (get external_urls ''spotify'') (\<lambda>spotify.
     Inr (digits (index + 1) @ ''. '' @ dq @ ToString h name @ dq @ nl
          @ ''   Description: ''
          @ ToString h (if truthy description then description else Str ''No description'') @ nl
          @ ''   Tracks: '' @ ToString h total @ nl
          @ ''   Public: '' @ (if truthy public then ''Yes'' else ''No'') @ nl
          @ ''   Playlist ID: '' @ ToString h id @ nl
          @ ''   URL: '' @ ToString h spotify @ nl
          @ ''  '')))))))))"

definition playlists_text :: "host \<Rightarrow> jsval \<Rightarrow> jsval \<Rightarrow> string result" where
  "playlists_text h offset data =
     bindE (get data ''items'') (\<lambda>items.
     if \<not> truthy items then Inr ''You don't have any playlists yet.''
     else
       bindE (get items ''length'') (\<lambda>len.
       if strict_eq_literal len 0 then Inr ''You don't have any playlists yet.''
       else
         bindE (js_map ''data.items'' items (playlist_line h)) (\<lambda>lines.
         bindE (get data ''total'') (\<lambda>total.
         Inr (''Found '' @ ToString h len @ '' playlists (showing ''
              @ ToString h (js_plus h offset (Num (Fin 1))) @ ''-''
              @ ToString h (js_plus h offset len) @ '' of '' @ ToString h total @ ''):''
              @ nl @ nl @ join (nl @ nl) lines)))))"

definition playlists_request :: "host \<Rightarrow> jsval \<Rightarrow> jsval \<Rightarrow> string \<Rightarrow> request" where
  "playlists_request h token limit offset_string =
     \<lparr>http_method = ''GET'',
      url = ''https://api.spotify.com/v1/me/playlists'',
      searchParams = [(''limit'', num_toString h (Math_min h limit 50)),
                      (''offset'', offset_string)],
      headers = [bearer h token],
      payload = NoBody\<rparr>"

definition getUserPlaylists :: "host \<Rightarrow> jsval \<Rightarrow> jsval \<Rightarrow> string action" where
  "getUserPlaylists h limit0 offset0 =
     (let limit = default_to (Num (Fin 20)) limit0;
          offset = default_to (Num (Fin 0)) offset0
      in bindA (getAccessToken h) (\<lambda>token.
         bindA (liftA (js_toString h offset)) (\<lambda>offset_string.
         bindA (fetch h (playlists_request h token limit offset_string)) (\<lambda>response.
         if \<not> ok response then throwA (api_error response)
         else bindA (liftA (json h response)) (\<lambda>data.
              liftA (playlists_text h offset data))))))"

subsection \<open>getPlaylistTracks\<close>

definition playlist_track_line :: "host \<Rightarrow> jsval \<Rightarrow> jsval \<Rightarrow> nat \<Rightarrow> string result" where
  "playlist_track_line h offset item index =
     bindE (get item ''track'') (\<lambda>track.
     bindE (get track ''name'') (\<lambda>name.
     bindE (artist_names h track) (\<lambda>artists.
     bindE (get track ''album'') (\<lambda>album.
     bindE (get album ''name'') (\<lambda>album_name.
     bindE (get track ''duration_ms'') (\<lambda>duration_ms.
     bindE (get item ''added_at'') (\<lambda>added_at.
     bindE (get track ''uri'') (\<lambda>uri.
     bindE (get track ''id'') (\<lambda>id.
     Inr (ToString h (js_plus h (js_plus h (Num (Fin (of_nat index))) offset) (Num (Fin 1)))
          @ ''. '' @ dq @ ToString h name @ dq @ '' by '' @ artists @ nl
          @ ''   Album: '' @ ToString h album_name @ nl
          @ ''   Duration: '' @ formatDuration h (ToNumber h duration_ms) @ nl
          @ ''   Added at: '' @ toLocaleString h added_at @ nl
          @ ''   Spotify URI: '' @ ToString h uri @ nl
          @ ''   Track ID: '' @ ToString h id @ nl
          @ ''  ''))))))))))"

definition playlist_tracks_text :: "host \<Rightarrow> jsval \<Rightarrow> jsval \<Rightarrow> jsval \<Rightarrow> string result" where
  "playlist_tracks_text h offset playlistData data =
     bindE (get data ''items'') (\<lambda>items.
     if \<not> truthy items
     then bindE (get playlistData ''name'') (\<lambda>name.
          Inr (''Playlist '' @ dq @ ToString h name @ dq @ '' is empty.''))
     else
       bindE (get items ''length'') (\<lambda>len.
       if strict_eq_literal len 0
       then bindE (get playlistData ''name'') (\<lambda>name.
            Inr (''Playlist '' @ dq @ ToString h name @ dq @ '' is empty.''))
       else
         bindE (js_map ''data.items'' items (playlist_track_line h offset)) (\<lambda>lines.
         bindE (get playlistData ''name'') (\<lambda>name.
         bindE (get playlistData ''total'') (\<lambda>total.
         Inr (''Tracks in '' @ dq @ ToString h name @ dq @ '' (showing ''
              @ ToString h (js_plus h offset (Num (Fin 1))) @ ''-''
              @ ToString h (js_plus h offset len) @ '' of '' @ ToString h total @ ''):''
              @ nl @ nl @ join (nl @ nl) lines))))))"

definition playlist_request :: "host \<Rightarrow> jsval \<Rightarrow> jsval \<Rightarrow> request" where
  "playlist_request h token playlistId =
     \<lparr>http_method = ''GET'',
      url = ''https://api.spotify.com/v1/playlists/'' @ ToString h playlistId,
      searchParams = [],
      headers = [bearer h token],
      payload = NoBody\<rparr>"

text \<open>
  The address of the page goes through \<open>new URL(...)\<close>; \<open>searchParams\<close> holds the two
  parameters that are set on it afterwards.
\<close>

definition playlist_tracks_request :: "host \<Rightarrow> jsval \<Rightarrow> jsval \<Rightarrow> jsval \<Rightarrow> string \<Rightarrow> request" where
  "playlist_tracks_request h token playlistId limit offset_string =
     \<lparr>http_method = ''GET'',
      url = URL_toString h
              (''https://api.spotify.com/v1/playlists/'' @ ToString h playlistId @ ''/tracks''),
      searchParams = [(''limit'', num_toString h (Math_min h limit 100)),
                      (''offset'', offset_string)],
      headers = [bearer h token],
      payload = NoBody\<rparr>"

definition getPlaylistTracks :: "host \<Rightarrow> jsval \<Rightarrow> jsval \<Rightarrow> jsval \<Rightarrow> string action" where
  "getPlaylistTracks h playlistId limit0 offset0 =
     (let limit = default_to (Num (Fin 50)) limit0;
          offset = default_to (Num (Fin 0)) offset0
      in bindA (getAccessToken h) (\<lambda>token.
         bindA (fetch h (playlist_request h token playlistId)) (\<lambda>playlistResponse.
         if \<not> ok playlistResponse then throwA (api_error playlistResponse)
         else bindA (liftA (json h playlistResponse)) (\<lambda>playlistData.
              bindA (liftA (js_toString h offset)) (\<lambda>offset_string.
              bindA (fetch h (playlist_tracks_request h token playlistId limit offset_string))
                (\<lambda>response.
              if \<not> ok response then throwA (api_error response)
              else bindA (liftA (json h response)) (\<lambda>data.
                   liftA (playlist_tracks_text h offset playlistData data))))))))"

section \<open>src/tools.ts: the type guards\<close>

definition prop_is_string :: "jsval \<Rightarrow> string \<Rightarrow> bool" where
  "prop_is_string args k = (case get args k of Inr (Str s) \<Rightarrow> True | _ \<Rightarrow> False)"

definition prop_is_array :: "jsval \<Rightarrow> string \<Rightarrow> bool" where
  "prop_is_array args k = (case get args k of Inr v \<Rightarrow> isArray v | Inl e \<Rightarrow> False)"

definition isSearchTracksArgs :: "jsval \<Rightarrow> bool" where
  "isSearchTracksArgs args =
     (typeof_object args \<and> args \<noteq> Null \<and> has_key ''query'' args \<and> prop_is_string args ''query'')"

definition isGetRecommendationsArgs :: "jsval \<Rightarrow> bool" where
  "isGetRecommendationsArgs args =
     (typeof_object args \<and> args \<noteq> Null \<and>
      ((has_key ''seed_tracks'' args \<and> prop_is_array args ''seed_tracks'') \<or>
       (has_key ''seed_artists'' args \<and> prop_is_array args ''seed_artists'') \<or>
       (has_key ''seed_genres'' args \<and> prop_is_array args ''seed_genres'')))"

definition isCreatePlaylistArgs :: "jsval \<Rightarrow> bool" where
  "isCreatePlaylistArgs args =
     (typeof_object args \<and> args \<noteq> Null \<and> has_key ''name'' args \<and> prop_is_string args ''name'')"

definition isAddTracksToPlaylistArgs :: "jsval \<Rightarrow> bool" where
  "isAddTracksToPlaylistArgs args =
     (typeof_object args \<and> args \<noteq> Null \<and>
      has_key ''playlist_id'' args \<and> prop_is_string args ''playlist_id'' \<and>
      has_key ''track_uris'' args \<and> prop_is_array args ''track_uris'')"

definition isGetUserPlaylistsArgs :: "jsval \<Rightarrow> bool" where
  "isGetUserPlaylistsArgs args = (typeof_object args \<and> args \<noteq> Null)"

definition isGetPlaylistTracksArgs :: "jsval \<Rightarrow> bool" where
  "isGetPlaylistTracksArgs args =
     (typeof_object args \<and> args \<noteq> Null \<and>
      has_key ''playlist_id'' args \<and> prop_is_string args ''playlist_id'')"

section \<open>The server: the call-tool handler\<close>

record call_tool_request =
  tool_name :: string
  arguments :: jsval

record content_block =
  ctype :: string
  ctext :: string

record call_tool_result =
  content :: "content_block list"
  isError :: bool

definition text_result :: "string \<Rightarrow> bool \<Rightarrow> call_tool_result" where
  "text_result s e = \<lparr>content = [\<lparr>ctype = ''text'', ctext = s\<rparr>], isError = e\<rparr>"

text \<open>The body of the \<open>try\<close> block: the switch over the tool name.\<close>

definition call_tool_try :: "host \<Rightarrow> call_tool_request \<Rightarrow> call_tool_result action" where
  "call_tool_try h req =
     (let name = tool_name req; args = arguments req
      in if \<not> truthy args then throwA (Error ''No arguments provided'')
         else if name = ''spotify_search_tracks'' then
           (if \<not> isSearchTracksArgs args
            then throwA (Error ''Invalid arguments for spotify_search_tracks'')
            else bindA (liftA (get args ''query'')) (\<lambda>query.
                 bindA (liftA (get args ''limit'')) (\<lambda>limit.
                 bindA (searchTracks h query (default_to (Num (Fin 10)) limit)) (\<lambda>results.
                 returnA (text_result results False)))))
         else if name = ''spotify_get_recommendations'' then
           (if \<not> isGetRecommendationsArgs args
            then throwA (Error ''Invalid arguments for spotify_get_recommendations'')
            else bindA (getRecommendations h args) (\<lambda>results.
                 returnA (text_result results False)))
         else if name = ''spotify_create_playlist'' then
           (if \<not> isCreatePlaylistArgs args
            then throwA (Error ''Invalid arguments for spotify_create_playlist'')
            else bindA (liftA (get args ''name'')) (\<lambda>name.
                 bindA (liftA (get args ''description'')) (\<lambda>description.
                 bindA (liftA (get args ''public'')) (\<lambda>isPublic.
                 bindA (createPlaylist h name (default_to (Str '''') description)
                          (default_to (Bool False) isPublic)) (\<lambda>results.
                 returnA (text_result results False))))))
         else if name = ''spotify_add_tracks_to_playlist'' then
           (if \<not> isAddTracksToPlaylistArgs args
            then throwA (Error ''Invalid arguments for spotify_add_tracks_to_playlist'')
            else bindA (liftA (get args ''playlist_id'')) (\<lambda>playlist_id.
                 bindA (liftA (get args ''track_uris'')) (\<lambda>track_uris.
                 bindA (liftA (get args ''position'')) (\<lambda>position.
                 bindA (addTracksToPlaylist h playlist_id track_uris position) (\<lambda>results.
                 returnA (text_result results False))))))
         else if name = ''spotify_get_user_playlists'' then
           (if \<not> isGetUserPlaylistsArgs args
            then throwA (Error ''Invalid arguments for spotify_get_user_playlists'')
            else bindA (liftA (get args ''limit'')) (\<lambda>limit.
                 bindA (liftA (get args ''offset'')) (\<lambda>offset.
                 bindA (getUserPlaylists h (default_to (Num (Fin 20)) limit)
                          (default_to (Num (Fin 0)) offset)) (\<lambda>results.
                 returnA (text_result results False)))))
         else if name = ''spotify_get_playlist_tracks'' then
           (if \<not> isGetPlaylistTracksArgs args
            then throwA (Error ''Invalid arguments for spotify_get_playlist_tracks'')
            else bindA (liftA (get args ''playlist_id'')) (\<lambda>playlist_id.
                 bindA (liftA (get args ''limit'')) (\<lambda>limit.
                 bindA (liftA (get args ''offset'')) (\<lambda>offset.
                 bindA (getPlaylistTracks h playlist_id (default_to (Num (Fin 50)) limit)
                          (default_to (Num (Fin 0)) offset)) (\<lambda>results.
                 returnA (text_result results False))))))
         else returnA (text_result (''Unknown tool: '' @ name) True))"

text \<open>The handler: the \<open>try\<close> block and its \<open>catch\<close>.\<close>

definition CallToolRequestHandler ::
    "host \<Rightarrow> call_tool_request \<Rightarrow> world \<Rightarrow> call_tool_result \<times> world" where
  "CallToolRequestHandler h req w =
     (case call_tool_try h req w of
        (Inl e, w') \<Rightarrow> (text_result (''Error: '' @ message e) True, w')
      | (Inr r, w') \<Rightarrow> (r, w'))"

section \<open>The tools and the operations behind them\<close>

text \<open>The names of the six tool descriptors of \<open>src/tools.ts\<close>, in the order of the list-tools reply.\<close>

definition tool_names :: "string list" where
  "tool_names =
     [''spotify_search_tracks'', ''spotify_get_recommendations'', ''spotify_create_playlist'',
      ''spotify_add_tracks_to_playlist'', ''spotify_get_user_playlists'',
      ''spotify_get_playlist_tracks'']"



text \<open>
  Following the specification: the cached credential is the pair of the token and its
  expiry; a request is refused when the upstream answers it, but not with 2xx; a message
  contains a status code when the digits stand somewhere in it.
\<close>

definition credentials :: "world \<Rightarrow> jsval \<times> number" where
  "credentials w = (accessToken w, tokenExpiryTime w)"

definition refused :: "host \<Rightarrow> request \<Rightarrow> world \<Rightarrow> http_response \<Rightarrow> world \<Rightarrow> bool" where
  "refused h rq w response w' = (fetch h rq w = (Inr response, w') \<and> \<not> ok response)"

fun contains :: "string \<Rightarrow> string \<Rightarrow> bool" where
  "contains [] t = (t = [])"
| "contains (c # s) t = (take (length t) (c # s) = t \<or> contains s t)"

section \<open>A concrete host\<close>

text \<open>
  A host to run the program on: an upstream that answers by URL, and a parser that knows
  the bodies this upstream sends. Its identifiers need no escape in an address.
\<close>

definition quoted :: "string \<Rightarrow> string" where
  "quoted s = dq @ s @ dq"

definition token_body :: string where
  "token_body =
     ''{'' @ quoted ''access_token'' @ '':'' @ quoted ''BQDfresh'' @ '','' @ quoted ''expires_in''
     @ '':3600}''"

definition token_json :: jsval where
  "token_json = Obj [(''access_token'', Str ''BQDfresh''), (''expires_in'', Num (Fin 3600))]"

text \<open>A token whose lifetime is not a whole number of seconds: \<open>3600 + 2^-15\<close>.\<close>

definition fraction_body :: string where
  "fraction_body =
     ''{'' @ quoted ''access_token'' @ '':'' @ quoted ''BQDfresh'' @ '','' @ quoted ''expires_in''
     @ '':3600.000030517578125}''"

definition fraction_json :: jsval where
  "fraction_json =
     Obj [(''access_token'', Str ''BQDfresh''), (''expires_in'', Num (Fin (3600 + 1 / 32768)))]"

text \<open>
  A playlist as the upstream describes it: the number of its tracks is the property
  \<open>total\<close> of the property \<open>tracks\<close>, where \<open>getUserPlaylists\<close> reads it.
\<close>

definition playlist_body :: string where
  "playlist_body =
     ''{'' @ quoted ''name'' @ '':'' @ quoted ''Road Trip'' @ '','' @ quoted ''tracks'' @ '':{''
     @ quoted ''total'' @ '':42}}''"

definition playlist_json :: jsval where
  "playlist_json =
     Obj [(''name'', Str ''Road Trip''), (''tracks'', Obj [(''total'', Num (Fin 42))])]"

definition page_body :: string where
  "page_body = ''{'' @ quoted ''items'' @ '':[...]}''"

definition demo_track :: jsval where
  "demo_track =
     Obj [(''name'', Str ''Song''), (''artists'', Arr [Obj [(''name'', Str ''Band'')]]),
          (''album'', Obj [(''name'', Str ''Album'')]), (''duration_ms'', Num (Fin 125000)),
          (''uri'', Str ''spotify:track:1''), (''id'', Str ''1''), (''popularity'', Num (Fin 50))]"

definition page_json :: jsval where
  "page_json =
     Obj [(''items'', Arr [Obj [(''track'', demo_track), (''added_at'', Str ''2024-01-01T00:00:00Z'')],
                           Obj [(''track'', demo_track), (''added_at'', Str ''2024-01-02T00:00:00Z'')]])]"

definition demo_parse :: "string \<Rightarrow> string + jsval" where
  "demo_parse s =
     (if s = token_body then Inr token_json
      else if s = fraction_body then Inr fraction_json
      else if s = playlist_body then Inr playlist_json
      else if s = page_body then Inr page_json
      else if s = [] then Inl ''Unexpected end of JSON input''
      else Inl ''Unexpected token'')"

definition demo_host :: "(request list \<Rightarrow> request \<Rightarrow> reply) \<Rightarrow> host" where
  "demo_host srv =
     \<lparr>SPOTIFY_CLIENT_ID = ''client'',
      SPOTIFY_CLIENT_SECRET = ''secret'',
      SPOTIFY_REFRESH_TOKEN = ''refresh'',
      base64 = (\<lambda>s. if s = ''client:secret'' then ''Y2xpZW50OnNlY3JldA=='' else []),
      JSON_parse = demo_parse,
      StringToNumber = (\<lambda>s. NaN),
      Number_toString = (\<lambda>r. []),
      toLocaleString = (\<lambda>v. ''1/1/2024, 12:00:00 AM''),
      URL_toString = (\<lambda>s. s),
      server = srv\<rparr>"

definition answer :: "nat \<Rightarrow> string \<Rightarrow> string \<Rightarrow> reply" where
  "answer code reason text =
     \<lparr>elapsed = 250,
      outcome = Responded \<lparr>status = code, statusText = reason, responseText = text\<rparr>\<rparr>"

text \<open>An upstream in good health.\<close>

definition server_up :: "request list \<Rightarrow> request \<Rightarrow> reply" where
  "server_up history rq =
     (if url rq = ''https://accounts.spotify.com/api/token'' then answer 200 ''OK'' token_body
      else if url rq = ''https://api.spotify.com/v1/playlists/P1'' then answer 200 ''OK'' playlist_body
      else if url rq = ''https://api.spotify.com/v1/playlists/P1/tracks''
      then answer 200 ''OK'' page_body
      else answer 404 ''Not Found'' [])"

text \<open>An upstream that renews the token and refuses everything else.\<close>

definition server_401 :: "request list \<Rightarrow> request \<Rightarrow> reply" where
  "server_401 history rq =
     (if url rq = ''https://accounts.spotify.com/api/token'' then answer 200 ''OK'' token_body
      else answer 401 ''Unauthorized'' ''The access token expired'')"

text \<open>A token endpoint that refuses the refresh token, and one that answers 200 with no body.\<close>

definition server_400 :: "request list \<Rightarrow> request \<Rightarrow> reply" where
  "server_400 history rq = answer 400 ''Bad Request'' ''invalid_grant''"

definition server_empty :: "request list \<Rightarrow> request \<Rightarrow> reply" where
  "server_empty history rq = answer 200 ''OK'' []"

text \<open>A token endpoint that grants the lifetime with a fraction.\<close>

definition server_fraction :: "request list \<Rightarrow> request \<Rightarrow> reply" where
  "server_fraction history rq = answer 200 ''OK'' fraction_body"

text \<open>The cache before the first call, with a token that is still good, and with one that is not.\<close>

definition world_start :: world where
  "world_start = \<lparr>accessToken = Str [], tokenExpiryTime = Fin 0, clock = 1700000000000, calls = []\<rparr>"

definition world_cached :: world where
  "world_cached =
     \<lparr>accessToken = Str ''BQDcached'', tokenExpiryTime = Fin 1700000100000,
      clock = 1700000000000, calls = []\<rparr>"

definition world_expired :: world where
  "world_expired =
     \<lparr>accessToken = Str ''BQDold'', tokenExpiryTime = Fin 1699999999000,
      clock = 1700000000000, calls = []\<rparr>"

text \<open>An upstream that serves the token and the playlist, and forbids the rest.\<close>

definition server_half :: "request list \<Rightarrow> request \<Rightarrow> reply" where
  "server_half history rq =
     (if url rq = ''https://accounts.spotify.com/api/token'' then answer 200 ''OK'' token_body
      else if url rq = ''https://api.spotify.com/v1/playlists/P1'' then answer 200 ''OK'' playlist_body
      else answer 403 ''Forbidden'' ''Insufficient client scope'')"

section \<open>Properties\<close>

subsection \<open>Sequencing\<close>

lemma bindA_liftA_Inr: "r = Inr x \<Longrightarrow> bindA (liftA r) f w = f x w"
  by (simp add: bindA_def liftA_def)


subsection \<open>Rounding\<close>

lemma ilog2_bounds: "0 < n \<Longrightarrow> 2 ^ ilog2 n \<le> n \<and> n < 2 ^ Suc (ilog2 n)"
proof (induction n rule: ilog2.induct)
  case (1 n)
  show ?case
  proof (cases "n < 2")
    case True
    with 1(2) have "n = 1"
      by simp
    then show ?thesis
      by (simp add: ilog2.simps)
  next
    case False
    then have "0 < n div 2"
      by simp
    with 1(1) False
    have IH: "2 ^ ilog2 (n div 2) \<le> n div 2 \<and> n div 2 < 2 ^ Suc (ilog2 (n div 2))"
      by simp
    have eq: "ilog2 n = Suc (ilog2 (n div 2))"
      using False by (simp add: ilog2.simps)
    from IH show ?thesis
      unfolding eq by simp linarith
  qed
qed

lemma ilog2_bounds_rat:
  assumes "0 < n"
  shows "(2::rat) ^ ilog2 n \<le> of_int n" and "(of_int n :: rat) + 1 \<le> 2 ^ Suc (ilog2 n)"
proof -
  from ilog2_bounds [OF assms] have "(2::int) ^ ilog2 n \<le> n" "n + 1 \<le> 2 ^ Suc (ilog2 n)"
    by simp_all
  then have "(of_int (2 ^ ilog2 n) :: rat) \<le> of_int n"
      "(of_int (n + 1) :: rat) \<le> of_int (2 ^ Suc (ilog2 n))"
    unfolding of_int_le_iff by simp_all
  then show "(2::rat) ^ ilog2 n \<le> of_int n" and "(of_int n :: rat) + 1 \<le> 2 ^ Suc (ilog2 n)"
    by simp_all
qed

lemma expo_bounds:
  assumes "0 < r"
  shows "2 powi expo r \<le> r" and "r < 2 powi (expo r + 1)"
proof -
  have "2 powi expo r \<le> r \<and> r < 2 powi (expo r + 1)"
  proof (cases "1 \<le> r")
    case True
    define n where "n = \<lfloor>r\<rfloor>"
    have n: "0 < n"
      using True by (simp add: n_def)
    have fl: "of_int n \<le> r" "r < of_int n + 1"
      unfolding n_def using floor_correct [of r] by simp_all
    have e: "expo r = int (ilog2 n)"
      using True by (simp add: expo_def n_def)
    have e1: "expo r + 1 = int (Suc (ilog2 n))"
      by (simp add: e)
    from ilog2_bounds_rat [OF n] fl have "(2::rat) ^ ilog2 n \<le> r" "r < 2 ^ Suc (ilog2 n)"
      by linarith+
    then show ?thesis
      unfolding e1 unfolding e power_int_of_nat by simp
  next
    case False
    define m where "m = \<lceil>1 / r\<rceil> - 1"
    have big: "1 < 1 / r"
      using False assms by simp
    then have m: "0 < m"
      by (simp add: m_def less_ceiling_iff)
    have "of_int \<lceil>1 / r\<rceil> - 1 < 1 / r" "1 / r \<le> of_int \<lceil>1 / r\<rceil>"
      using ceiling_correct [of "1 / r"] by simp_all
    then have c: "of_int m < 1 / r" "1 / r \<le> of_int m + 1"
      by (simp_all add: m_def)
    have e: "expo r = - int (Suc (ilog2 m))"
      using False by (simp add: expo_def m_def)
    have e1: "expo r + 1 = - int (ilog2 m)"
      by (simp add: e)
    from ilog2_bounds_rat [OF m] c
    have lo: "(2::rat) ^ ilog2 m < 1 / r" and hi: "1 / r \<le> 2 ^ Suc (ilog2 m)"
      by linarith+
    have p: "(0::rat) < 2 ^ ilog2 m" "(0::rat) < 2 ^ Suc (ilog2 m)"
      by simp_all
    from lo have "r < 1 / 2 ^ ilog2 m"
      using assms p(1) by (simp add: field_simps)
    moreover from hi have "1 / 2 ^ Suc (ilog2 m) \<le> r"
      using assms p(2) by (simp add: field_simps)
    ultimately show ?thesis
      unfolding e1 unfolding e power_int_minus_divide power_int_of_nat by simp
  qed
  then show "2 powi expo r \<le> r" and "r < 2 powi (expo r + 1)"
    by simp_all
qed

lemma round_even_int: "round_even (of_int n) = n"
  by (simp add: round_even_def)

lemma round_even_near:
  assumes "of_int n \<le> x" and "x < of_int n + 1 / 2"
  shows "round_even x = n"
proof -
  have "\<lfloor>x\<rfloor> = n"
    using assms by (intro floor_unique) simp_all
  then show ?thesis
    using assms by (simp add: round_even_def)
qed

lemma round_even_ge:
  assumes "of_int n \<le> x"
  shows "n \<le> round_even x"
proof -
  have "n \<le> \<lfloor>x\<rfloor>"
    using assms by (simp add: le_floor_iff)
  then show ?thesis
    by (simp add: round_even_def Let_def)
qed

lemma round_even_less:
  assumes "x + 1 / 2 < of_int n"
  shows "round_even x < n"
proof -
  have "x < of_int n"
    using assms by simp
  then have f: "\<lfloor>x\<rfloor> < n"
    by (simp add: floor_less_iff)
  show ?thesis
  proof (cases "x - of_int \<lfloor>x\<rfloor> < 1 / 2")
    case True
    with f show ?thesis
      by (simp add: round_even_def)
  next
    case False
    then have "of_int \<lfloor>x\<rfloor> + 1 / 2 \<le> x"
      by simp
    with assms have "of_int \<lfloor>x\<rfloor> + 1 < (of_int n :: rat)"
      by simp
    then have "(of_int (\<lfloor>x\<rfloor> + 1) :: rat) < of_int n"
      by simp
    then have "\<lfloor>x\<rfloor> + 1 < n"
      unfolding of_int_less_iff .
    then show ?thesis
      by (simp add: round_even_def Let_def)
  qed
qed

text \<open>The unit in the last place of a number below \<open>2^(k+1)\<close>, \<open>k \<le> 52\<close>, is one over a power of two.\<close>

lemma ulp_pos: "0 < ulp r"
  by (simp add: ulp_def zero_less_power_int)

lemma ulp_small:
  assumes "0 < r" and "r < 2 ^ n" and "n \<le> 53"
  shows "\<exists>e. ulp r = 1 / 2 ^ e \<and> 53 \<le> e + n"
proof -
  have "2 powi expo r \<le> r"
    using assms(1) by (rule expo_bounds)
  also have "r < 2 powi int n"
    using assms(2) by (simp add: power_int_of_nat)
  finally have "expo r < int n"
    by (rule power_int_le_imp_less_exp [rotated]) simp_all
  then have k: "max (expo r) (- 1022) - 52 = - int (nat (52 - max (expo r) (- 1022)))"
      "53 \<le> nat (52 - max (expo r) (- 1022)) + n"
    using assms(3) by simp_all
  have "ulp r = 1 / 2 ^ nat (52 - max (expo r) (- 1022))"
    using assms(1) unfolding ulp_def
    by (simp only: abs_of_pos k(1) power_int_minus_divide power_int_of_nat)
  with k(2) show ?thesis
    by blast
qed

lemma ulp_large:
  assumes "0 < r"
  shows "r < ulp r * 2 ^ 53"
proof -
  have "r < 2 powi (expo r + 1)"
    using assms by (rule expo_bounds)
  also have "\<dots> \<le> 2 powi (max (expo r) (- 1022) + 1)"
    by (rule power_int_increasing) simp_all
  also have "\<dots> = 2 powi (max (expo r) (- 1022) - 52 + 53)"
    by (simp add: add.commute)
  also have "\<dots> = 2 powi (max (expo r) (- 1022) - 52) * 2 powi 53"
    by (rule power_int_add) simp
  finally show ?thesis
    using assms by (simp add: ulp_def)
qed


lemma ulp_abs: "ulp \<bar>r\<bar> = ulp r"
  by (simp add: ulp_def)

text \<open>A whole number below \<open>2^53\<close> is a double.\<close>

lemma nearest_whole:
  assumes "\<bar>n\<bar> < 2 ^ 53"
  shows "nearest (of_int n) = of_int n"
proof (cases "n = 0")
  case True
  then show ?thesis
    by (simp add: nearest_def)
next
  case False
  define r :: rat where "r = of_int n"
  have r: "r \<noteq> 0" "0 < \<bar>r\<bar>"
    using False by (simp_all add: r_def)
  have "(of_int \<bar>n\<bar> :: rat) < of_int (2 ^ 53)"
    unfolding of_int_less_iff using assms .
  then have "\<bar>r\<bar> < 2 ^ 53"
    by (simp add: r_def)
  with r(2) obtain e where "ulp \<bar>r\<bar> = 1 / 2 ^ e"
    using ulp_small [of "\<bar>r\<bar>" 53] by auto
  then have e: "ulp r = 1 / 2 ^ e"
    by (simp only: ulp_abs)
  have "r / ulp r = of_int (n * 2 ^ e)"
    unfolding e by (simp add: r_def)
  then have "round_even (r / ulp r) = n * 2 ^ e"
    by (simp only: round_even_int)
  then have "nearest r = of_int (n * 2 ^ e) * (1 / 2 ^ e)"
    using r(1) by (simp add: nearest_def e)
  also have "\<dots> = r"
    by (simp add: r_def)
  finally show ?thesis
    by (simp only: r_def)
qed

text \<open>
  A number that lies above a whole number \<open>n\<close>, by less than its own \<open>2^54\<close>-th part and
  below \<open>2^53\<close>, rounds to \<open>n\<close>.
\<close>

lemma nearest_near:
  assumes n: "0 < n" and le: "of_int n \<le> y" and y53: "y < 2 ^ 53"
    and close: "(y - of_int n) * 2 ^ 54 \<le> y"
  shows "nearest y = of_int n"
proof -
  have "(0::rat) < of_int n"
    using n by simp
  with le have y: "0 < y"
    by linarith
  obtain e where e: "ulp y = 1 / 2 ^ e"
    using ulp_small [OF y y53] by auto
  have p: "(0::rat) < 2 ^ e"
    by simp
  have "y < ulp y * 2 ^ 53"
    using y by (rule ulp_large)
  with close have "(y - of_int n) * 2 ^ 54 < 1 / 2 ^ e * 2 ^ 53"
    unfolding e by linarith
  then have "(y - of_int n) * 2 ^ e * 2 ^ 54 < 2 ^ 53"
    using p by (simp add: field_simps)
  then have "(y - of_int n) * 2 ^ e < 2 ^ 53 / 2 ^ 54"
    by (simp only: pos_less_divide_eq zero_less_power zero_less_numeral)
  then have half: "(y - of_int n) * 2 ^ e < 1 / 2"
    by simp
  have split: "y / ulp y = of_int (n * 2 ^ e) + (y - of_int n) * 2 ^ e"
    by (simp add: e algebra_simps)
  have "0 \<le> (y - of_int n) * 2 ^ e"
    using le by simp
  with half have "round_even (y / ulp y) = n * 2 ^ e"
    unfolding split by (intro round_even_near) linarith+
  then have "nearest y = of_int (n * 2 ^ e) * (1 / 2 ^ e)"
    using y by (simp add: nearest_def e)
  then show ?thesis
    by simp
qed

text \<open>
  Rounding a quotient below \<open>2^44\<close> does not reach the next whole number, unless the
  quotient is within \<open>2^-10\<close> of it.
\<close>

lemma floor_nearest:
  assumes q0: "0 \<le> q" and q44: "q < 2 ^ 44" and gap: "q + 1 / 1024 < of_int \<lfloor>q\<rfloor> + 1"
  shows "\<lfloor>nearest q\<rfloor> = \<lfloor>q\<rfloor>"
proof (cases "q = 0")
  case True
  then show ?thesis
    by (simp add: nearest_def)
next
  case False
  with q0 have q: "0 < q"
    by simp
  obtain e where e: "ulp q = 1 / 2 ^ e" and e9: "53 \<le> e + 44"
    using ulp_small [OF q q44] by auto
  define n where "n = \<lfloor>q\<rfloor>"
  define R where "R = round_even (q / ulp q)"
  have p: "(0::rat) < 2 ^ e"
    by simp
  have "(2::rat) ^ 9 \<le> 2 ^ e"
    using e9 by (intro power_increasing) simp_all
  then have small: "1 / (2 * 2 ^ e) \<le> (1 / 1024 :: rat)"
    by (simp add: field_simps)
  have "of_int n \<le> q"
    by (simp add: n_def)
  then have "of_int n * 2 ^ e \<le> q * 2 ^ e"
    using p by simp
  then have "of_int (n * 2 ^ e) \<le> q / ulp q"
    by (simp add: e)
  then have lo: "n * 2 ^ e \<le> R"
    unfolding R_def by (rule round_even_ge)
  have "q + 1 / (2 * 2 ^ e) < of_int n + 1"
    using gap small unfolding n_def by linarith
  then have "(q + 1 / (2 * 2 ^ e)) * 2 ^ e < (of_int n + 1) * 2 ^ e"
    using p by simp
  then have "q / ulp q + 1 / 2 < of_int ((n + 1) * 2 ^ e)"
    by (simp add: e algebra_simps)
  then have hi: "R < (n + 1) * 2 ^ e"
    unfolding R_def by (rule round_even_less)
  have val: "nearest q = of_int R / 2 ^ e"
    using q by (simp add: nearest_def e R_def)
  from lo have "(of_int (n * 2 ^ e) :: rat) \<le> of_int R"
    unfolding of_int_le_iff .
  then have "of_int n * 2 ^ e \<le> (of_int R :: rat)"
    by simp
  then have 1: "of_int n \<le> nearest q"
    unfolding val using p by (simp add: pos_le_divide_eq)
  from hi have "(of_int R :: rat) < of_int ((n + 1) * 2 ^ e)"
    unfolding of_int_less_iff .
  then have "(of_int R :: rat) < (of_int n + 1) * 2 ^ e"
    by simp
  then have 2: "nearest q < of_int n + 1"
    unfolding val using p by (simp add: pos_divide_less_eq)
  from 1 2 show ?thesis
    unfolding n_def by (rule floor_unique)
qed

text \<open>
  \<open>nearest\<close> is rounding to nearest, ties to even: the result is a multiple of the unit
  in the last place, at most half a unit away, and of two multiples at that distance it is
  the even one.
\<close>

lemma round_even_error: "\<bar>of_int (round_even x) - x\<bar> \<le> 1 / 2"
proof -
  have "of_int \<lfloor>x\<rfloor> \<le> x" "x < of_int \<lfloor>x\<rfloor> + 1"
    using floor_correct [of x] by simp_all
  then show ?thesis
    by (auto simp: round_even_def Let_def)
qed

lemma round_even_tie:
  "round_even (of_int n + 1 / 2) = (if even n then n else n + 1)"
proof -
  have "\<lfloor>(of_int n :: rat) + 1 / 2\<rfloor> = n"
    by (intro floor_unique) simp_all
  then show ?thesis
    by (simp add: round_even_def)
qed

lemma nearest_error: "\<bar>nearest r - r\<bar> \<le> ulp r / 2"
proof (cases "r = 0")
  case True
  then show ?thesis
    using ulp_pos [of r] by (simp add: nearest_def)
next
  case False
  have u: "0 < ulp r"
    by (rule ulp_pos)
  have "nearest r - r = (of_int (round_even (r / ulp r)) - r / ulp r) * ulp r"
    using False u by (simp add: nearest_def field_simps)
  then have "\<bar>nearest r - r\<bar> = \<bar>of_int (round_even (r / ulp r)) - r / ulp r\<bar> * ulp r"
    using u by (simp add: abs_mult)
  also have "\<dots> \<le> 1 / 2 * ulp r"
    using u round_even_error [of "r / ulp r"] by (intro mult_right_mono) simp_all
  finally show ?thesis
    by simp
qed

text \<open>What the rounding lemmas say of the numbers of the program.\<close>

lemma number_of_small:
  assumes "\<bar>nearest r\<bar> < 2 ^ 53"
  shows "number_of r = Fin (nearest r)"
proof (cases "nearest r = 0")
  case True
  then show ?thesis
    by (simp add: number_of_def)
next
  case False
  then have "2 powi expo \<bar>nearest r\<bar> \<le> \<bar>nearest r\<bar>"
    by (intro expo_bounds) simp
  also have "\<bar>nearest r\<bar> < 2 powi 53"
    using assms by simp
  finally have "expo \<bar>nearest r\<bar> < 53"
    by (rule power_int_le_imp_less_exp [rotated]) simp_all
  then show ?thesis
    by (simp add: number_of_def)
qed

lemma number_of_whole:
  assumes "\<bar>n\<bar> < 2 ^ 53"
  shows "number_of (of_int n) = Fin (of_int n)"
proof -
  have "(of_int \<bar>n\<bar> :: rat) < of_int (2 ^ 53)"
    unfolding of_int_less_iff using assms .
  then have "\<bar>nearest (of_int n)\<bar> < 2 ^ 53"
    unfolding nearest_whole [OF assms] by simp
  then have "number_of (of_int n) = Fin (nearest (of_int n))"
    by (rule number_of_small)
  then show ?thesis
    by (simp only: nearest_whole [OF assms])
qed

lemma number_of_nat:
  assumes "n < 2 ^ 53"
  shows "number_of (of_nat n) = Fin (of_nat n)"
proof -
  have "int n < int (2 ^ 53)"
    unfolding of_nat_less_iff using assms .
  then have "\<bar>int n\<bar> < 2 ^ 53"
    by simp
  then have "number_of (of_int (int n)) = Fin (of_int (int n))"
    by (rule number_of_whole)
  then show ?thesis
    by simp
qed

lemma nine_tenths: "number_of (9 / 10) = Fin (8106479329266893 / 9007199254740992)"
  by code_simp

subsection \<open>Arithmetic on whole numbers\<close>

lemma floor_rat_div:
  fixes x :: rat
  assumes n: "0 < n"
  shows "\<lfloor>x / of_int n\<rfloor> = \<lfloor>x\<rfloor> div n"
proof (rule floor_unique)
  define q where "q = \<lfloor>x\<rfloor> div n"
  define r where "r = \<lfloor>x\<rfloor> mod n"
  have pos: "(0::rat) < of_int n"
    using n by simp
  have split: "\<lfloor>x\<rfloor> = q * n + r"
    by (simp add: q_def r_def)
  have r: "0 \<le> r" "r < n"
    using n by (simp_all add: r_def)
  have "(of_int (q * n) :: rat) \<le> of_int \<lfloor>x\<rfloor>"
    unfolding of_int_le_iff using split r by linarith
  also have "\<dots> \<le> x"
    by simp
  finally have "of_int q * of_int n \<le> x"
    by simp
  then show "of_int (\<lfloor>x\<rfloor> div n) \<le> x / of_int n"
    using pos by (simp add: pos_le_divide_eq q_def)
  have "x < of_int (\<lfloor>x\<rfloor> + 1)"
    by simp linarith
  also have "\<dots> \<le> (of_int (q * n + n) :: rat)"
    unfolding of_int_le_iff using split r by linarith
  finally have "x < (of_int q + 1) * of_int n"
    by (simp add: algebra_simps)
  then show "x / of_int n < of_int (\<lfloor>x\<rfloor> div n) + 1"
    using pos by (simp add: pos_divide_less_eq q_def)
qed

lemma num_toString_int:
  "0 \<le> k \<Longrightarrow> k < 2 ^ 53 \<Longrightarrow> num_toString h (Fin (of_int k)) = digits (nat k)"
  by (simp add: num_toString_def is_integer_def int_toString_def)

lemma trunc_nonneg:
  fixes q :: rat
  assumes "0 \<le> q"
  shows "sgn q * of_int \<lfloor>\<bar>q\<bar>\<rfloor> = of_int \<lfloor>q\<rfloor>"
proof (cases "q = 0")
  case True
  then show ?thesis by simp
next
  case False
  with assms have "0 < q" by simp
  then show ?thesis by simp
qed

lemma num_rem_nonneg:
  assumes t: "0 \<le> t" and n: "0 < n"
  shows "num_rem (Fin (of_int t)) (Fin (of_int n)) = Fin (of_int (t mod n))"
proof -
  define a :: rat where "a = of_int t"
  define b :: rat where "b = of_int n"
  have q: "0 \<le> a / b"
    using t n by (simp add: a_def b_def)
  have fl: "\<lfloor>a / b\<rfloor> = t div n"
    unfolding a_def b_def by (rule floor_divide_of_int_eq)
  have "a - b * (sgn (a / b) * of_int \<lfloor>\<bar>a / b\<bar>\<rfloor>) = a - b * of_int (t div n)"
    by (simp only: trunc_nonneg [OF q] fl)
  also have "\<dots> = of_int (t mod n)"
    unfolding a_def b_def by (simp add: minus_mult_div_eq_mod flip: of_int_mult of_int_diff)
  finally have "a - b * (sgn (a / b) * of_int \<lfloor>\<bar>a / b\<bar>\<rfloor>) = of_int (t mod n)" .
  moreover have "b \<noteq> 0"
    using n by (simp add: b_def)
  ultimately have "num_rem (Fin a) (Fin b) = Fin (of_int (t mod n))"
    by (simp only: num_rem.simps if_False)
  then show ?thesis
    by (simp only: a_def b_def)
qed

text \<open>
  The floor of a rounded quotient of whole numbers is the whole quotient, as long as the
  quotient stays below \<open>2^44\<close> and the divisor below \<open>2^10\<close>: the exact quotient is then
  at least \<open>1/b\<close> below the next whole number, and the rounding moves it by \<open>2^-10\<close> at
  most.
\<close>

lemma floor_quotient:
  assumes a: "0 \<le> a" "a < b * 2 ^ 44" and b: "0 < b" "b \<le> 1000"
  shows "Math_floor (num_div (Fin (of_int a)) (Fin (of_int b))) = Fin (of_int (a div b))"
proof -
  define q :: rat where "q = of_int a / of_int b"
  have pos: "(0::rat) < of_int b"
    using b by simp
  have fl: "\<lfloor>q\<rfloor> = a div b"
    unfolding q_def by (rule floor_divide_of_int_eq)
  have q0: "0 \<le> q"
    using a b by (simp add: q_def)
  have "(of_int a :: rat) < of_int (b * 2 ^ 44)"
    unfolding of_int_less_iff using a(2) .
  then have q44: "q < 2 ^ 44"
    using pos by (simp add: q_def pos_divide_less_eq mult.commute)
  have "a mod b \<le> b - 1"
    using b by simp
  then have "a \<le> (a div b) * b + (b - 1)"
    using div_mult_mod_eq [of a b] by linarith
  then have "(of_int a :: rat) \<le> of_int ((a div b) * b + (b - 1))"
    unfolding of_int_le_iff .
  then have "of_int a \<le> (of_int (a div b) + 1) * of_int b - (1::rat)"
    by (simp add: algebra_simps)
  then have "q \<le> of_int (a div b) + 1 - 1 / of_int b"
    using pos by (simp add: q_def field_simps)
  moreover have "(1 / 1000 :: rat) \<le> 1 / of_int b"
    using b by (simp add: field_simps)
  ultimately have gap: "q + 1 / 1024 < of_int \<lfloor>q\<rfloor> + 1"
    unfolding fl by linarith
  have same: "\<lfloor>nearest q\<rfloor> = a div b"
    using floor_nearest [OF q0 q44 gap] by (simp only: fl)
  have "\<lfloor>q\<rfloor> < 2 ^ 44"
    using q44 by (simp add: floor_less_iff)
  then have "a div b + 1 \<le> 2 ^ 44"
    unfolding fl by simp
  then have "(of_int (a div b + 1) :: rat) \<le> of_int (2 ^ 44)"
    unfolding of_int_le_iff .
  then have top: "of_int (a div b) + 1 \<le> (2::rat) ^ 44"
    by simp
  have "0 \<le> a div b"
    using a(1) b(1) by (simp add: pos_imp_zdiv_nonneg_iff)
  then have bottom: "(0::rat) \<le> of_int (a div b)"
    by simp
  have "nearest q < of_int (a div b) + 1" "of_int (a div b) \<le> nearest q"
    using floor_correct [of "nearest q"] unfolding same by simp_all
  with top bottom have "\<bar>nearest q\<bar> < 2 ^ 44"
    by linarith
  also have "(2::rat) ^ 44 \<le> 2 ^ 53"
    by (intro power_increasing) simp_all
  finally have "number_of q = Fin (nearest q)"
    by (rule number_of_small)
  moreover have "of_int b \<noteq> (0::rat)"
    using b by simp
  ultimately have "num_div (Fin (of_int a)) (Fin (of_int b)) = Fin (nearest q)"
    by (simp add: q_def)
  then show ?thesis
    by (simp add: same)
qed

subsection \<open>formatDuration\<close>

text \<open>
  C9, as the code has it. For a whole number of milliseconds \<open>ms\<close> from 0 to below
  \<open>2^53\<close>, \<open>formatDuration\<close> prints \<open>floor(ms/1000/60)\<close>, a colon, and
  \<open>floor(ms/1000) mod 60\<close> padded with zeros to two digits: in this range the rounding of
  the two quotients does not reach the next whole number, so that the floors are those of the
  exact quotients.
\<close>

theorem formatDuration_floor:
  assumes "0 \<le> ms" and "ms < 2 ^ 53"
  shows "formatDuration h (Fin (of_int ms)) =
           digits (nat \<lfloor>(of_int ms :: rat) / 1000 / 60\<rfloor>) @ '':'' @
           padStart 2 (CHR ''0'') (digits (nat (\<lfloor>(of_int ms :: rat) / 1000\<rfloor> mod 60)))"
proof -
  define t where "t = ms div 1000"
  have t0: "0 \<le> t"
    using assms by (simp add: t_def pos_imp_zdiv_nonneg_iff)
  have "1000 * t \<le> ms"
    unfolding t_def using div_mult_mod_eq [of ms 1000] pos_mod_sign [of 1000 ms] by linarith
  with assms have t1: "t < 2 ^ 44"
    by simp
  have "Math_floor (num_div (Fin (of_int ms)) (Fin (of_int 1000))) = Fin (of_int (ms div 1000))"
    using assms by (intro floor_quotient) simp_all
  then have total: "Math_floor (num_div (Fin (of_int ms)) (Fin 1000)) = Fin (of_int t)"
    by (simp add: t_def)
  have "Math_floor (num_div (Fin (of_int t)) (Fin (of_int 60))) = Fin (of_int (t div 60))"
    using t0 t1 by (intro floor_quotient) simp_all
  then have minutes: "Math_floor (num_div (Fin (of_int t)) (Fin 60)) = Fin (of_int (t div 60))"
    by simp
  have seconds: "num_rem (Fin (of_int t)) (Fin 60) = Fin (of_int (t mod 60))"
    using num_rem_nonneg [of t 60] t0 by simp
  have s: "\<lfloor>(of_int ms :: rat) / 1000\<rfloor> = t"
    using floor_divide_of_int_eq [of ms 1000, where ?'a = rat] by (simp add: t_def)
  have m: "\<lfloor>(of_int ms :: rat) / 1000 / 60\<rfloor> = t div 60"
    using floor_rat_div [of 60 "of_int ms / 1000"] by (simp add: s)
  have "t div 60 \<le> t"
    using zdiv_mono2 [of t 1 60] t0 by simp
  with t0 t1 have md: "0 \<le> t div 60" "t div 60 < 2 ^ 53"
    by (simp_all add: pos_imp_zdiv_nonneg_iff)
  have sd: "0 \<le> t mod 60" "t mod 60 < 2 ^ 53"
    by simp_all
  have "formatDuration h (Fin (of_int ms)) =
          digits (nat (t div 60)) @ '':'' @ padStart 2 (CHR ''0'') (digits (nat (t mod 60)))"
    unfolding formatDuration_def Let_def total minutes seconds
    by (simp only: num_toString_int [OF md] num_toString_int [OF sd])
  then show ?thesis
    by (simp only: m s)
qed

text \<open>The three durations of the specification: 2:05, 0:59 and 10:00.\<close>

theorem formatDuration_floor_witness:
  "\<forall>h. formatDuration h (Fin 125000) = ''2:05'' \<and>
       formatDuration h (Fin 59999) = ''0:59'' \<and>
       formatDuration h (Fin 600000) = ''10:00''"
proof (intro allI conjI)
  fix h
  have "formatDuration h (Fin (of_int 125000)) =
          digits (nat \<lfloor>(of_int 125000 :: rat) / 1000 / 60\<rfloor>) @ '':'' @
          padStart 2 (CHR ''0'') (digits (nat (\<lfloor>(of_int 125000 :: rat) / 1000\<rfloor> mod 60)))"
    by (rule formatDuration_floor) simp_all
  also have "\<dots> = ''2:05''"
    by code_simp
  finally show "formatDuration h (Fin 125000) = ''2:05''"
    by simp
  have "formatDuration h (Fin (of_int 59999)) =
          digits (nat \<lfloor>(of_int 59999 :: rat) / 1000 / 60\<rfloor>) @ '':'' @
          padStart 2 (CHR ''0'') (digits (nat (\<lfloor>(of_int 59999 :: rat) / 1000\<rfloor> mod 60)))"
    by (rule formatDuration_floor) simp_all
  also have "\<dots> = ''0:59''"
    by code_simp
  finally show "formatDuration h (Fin 59999) = ''0:59''"
    by simp
  have "formatDuration h (Fin (of_int 600000)) =
          digits (nat \<lfloor>(of_int 600000 :: rat) / 1000 / 60\<rfloor>) @ '':'' @
          padStart 2 (CHR ''0'') (digits (nat (\<lfloor>(of_int 600000 :: rat) / 1000\<rfloor> mod 60)))"
    by (rule formatDuration_floor) simp_all
  also have "\<dots> = ''10:00''"
    by code_simp
  finally show "formatDuration h (Fin 600000) = ''10:00''"
    by simp
qed

text \<open>
  The claim as it was stated fails on large counts. The whole number 160000000000000992
  is a double, and its quotient by 1000 is rounded up to the whole number
  160000000000001 before the floor is taken: the seconds printed are 41, where the floor
  of the exact quotient gives 40.
\<close>

theorem formatDuration_floor_counterexample:
  "nearest 160000000000000992 = 160000000000000992
   \<and> formatDuration (demo_host server_up) (Fin 160000000000000992) = ''2666666666666:41''
   \<and> digits (nat \<lfloor>160000000000000992 / 1000 / 60 :: rat\<rfloor>) @ '':'' @
       padStart 2 (CHR ''0'') (digits (nat (\<lfloor>160000000000000992 / 1000 :: rat\<rfloor> mod 60)))
     = ''2666666666666:40''"
proof (intro conjI)
  let ?h = "demo_host server_up"
  show "nearest 160000000000000992 = 160000000000000992"
    by code_simp
  have total: "Math_floor (num_div (Fin 160000000000000992) (Fin 1000)) = Fin 160000000000001"
    by code_simp
  have minutes: "Math_floor (num_div (Fin 160000000000001) (Fin 60)) = Fin 2666666666666"
    by code_simp
  have seconds: "num_rem (Fin 160000000000001) (Fin 60) = Fin 41"
    by code_simp
  have many: "digits 2666666666666 = ''2666666666666''"
    by (simp add: digits.simps digit_def)
  have few: "digits 41 = ''41''" "digits 40 = ''40''"
    by (simp_all add: digits.simps digit_def)
  have "num_toString ?h (Fin (of_int 2666666666666)) = digits (nat 2666666666666)"
    by (rule num_toString_int) simp_all
  then have m: "num_toString ?h (Fin 2666666666666) = ''2666666666666''"
    by (simp add: many)
  have "num_toString ?h (Fin (of_int 41)) = digits (nat 41)"
    by (rule num_toString_int) simp_all
  then have s: "num_toString ?h (Fin 41) = ''41''"
    by (simp add: few)
  show "formatDuration ?h (Fin 160000000000000992) = ''2666666666666:41''"
    unfolding formatDuration_def Let_def total minutes seconds m s
    by (simp add: padStart_def)
  have "\<lfloor>160000000000000992 / 1000 / 60 :: rat\<rfloor> = 2666666666666"
      "\<lfloor>160000000000000992 / 1000 :: rat\<rfloor> mod 60 = 40"
    by code_simp+
  then show "digits (nat \<lfloor>160000000000000992 / 1000 / 60 :: rat\<rfloor>) @ '':'' @
       padStart 2 (CHR ''0'') (digits (nat (\<lfloor>160000000000000992 / 1000 :: rat\<rfloor> mod 60)))
     = ''2666666666666:40''"
    by (simp add: many few padStart_def)
qed

subsection \<open>getAccessToken: the cache\<close>

text \<open>
  C2. When the cached token is a non-empty string and the stored expiry lies strictly
  after the clock, \<open>getAccessToken\<close> returns the cached token and leaves the whole
  world as it was: no request is added to \<open>calls\<close>, and the cached pair is not written.
\<close>

theorem getAccessToken_cache_hit:
  assumes "accessToken w = Str t" and "t \<noteq> []"
    and "tokenExpiryTime w = Fin expiresAt" and "of_int (clock w) < expiresAt"
  shows "getAccessToken h w = (Inr (Str t), w)"
  using assms by (simp add: getAccessToken_def Date_now_def)

theorem getAccessToken_cache_hit_witness:
  "getAccessToken (demo_host server_400) world_cached = (Inr (Str ''BQDcached''), world_cached)
   \<and> calls world_cached = []"
  using getAccessToken_cache_hit [of world_cached "''BQDcached''" 1700000100000 "demo_host server_400"]
  by (simp add: world_cached_def)

subsection \<open>getAccessToken: the renewal\<close>

lemma fetch_Responded:
  assumes "outcome (server h (calls w) rq) = Responded response"
  shows "fetch h rq w =
           (Inr response,
            w\<lparr>clock := clock w + int (elapsed (server h (calls w) rq)), calls := calls w @ [rq]\<rparr>)"
  using assms by (simp add: fetch_def Let_def)

text \<open>The renewal that is answered 2xx with an object, before any arithmetic is done.\<close>

lemma renewal_granted:
  assumes miss: "\<not> (truthy (accessToken w) \<and> num_gt (tokenExpiryTime w) (Date_now w))"
    and reply: "outcome (server h (calls w) (token_request h)) = Responded response"
    and ok: "ok response"
    and body: "JSON_parse h (responseText response) = Inr (Obj kvs)"
  shows "getAccessToken h w =
          (let w1 = w\<lparr>clock := clock w + int (elapsed (server h (calls w) (token_request h))),
                       calls := calls w @ [token_request h]\<rparr>;
               token = (case map_of kvs ''access_token'' of Some v \<Rightarrow> v | None \<Rightarrow> Undefined);
               expires_in = (case map_of kvs ''expires_in'' of Some v \<Rightarrow> v | None \<Rightarrow> Undefined)
           in (Inr token,
               w1\<lparr>accessToken := token,
                   tokenExpiryTime :=
                     num_add (Fin (of_int (clock w1)))
                       (num_mul (num_mul (ToNumber h expires_in) (Fin 1000))
                          (number_of (9 / 10)))\<rparr>))"
  unfolding getAccessToken_def
  by (simp only: miss if_False)
     (simp add: fetch_Responded [OF reply] ok body Let_def Date_now_def
        del: num_add.simps num_mul.simps)

text \<open>
  The arithmetic of the expiry on whole numbers: \<open>e * 1000\<close> is exact, its product with
  the double nearest to nine tenths lies above \<open>900 * e\<close> by less than half a unit in the
  last place and rounds to it, and the sum with the clock is exact.
\<close>

lemma expiry_whole:
  assumes e: "0 \<le> e" "e * 1000 < 2 ^ 53" and c: "0 \<le> c" "c + 900 * e < 2 ^ 53"
  shows "num_add (Fin (of_int c)) (num_mul (num_mul (Fin (of_int e)) (Fin 1000))
           (number_of (9 / 10))) = Fin (of_int c + 9 / 10 * of_int e * 1000)"
proof -
  define x :: rat where "x = of_int e"
  define y :: rat where "y = of_int (e * 1000) * (8106479329266893 / 9007199254740992)"
  have x0: "0 \<le> x"
    using e(1) by (simp add: x_def)
  have "(of_int (e * 1000) :: rat) < of_int (2 ^ 53)"
    unfolding of_int_less_iff using e(2) .
  then have x53: "x * 1000 < 2 ^ 53"
    by (simp add: x_def)
  have yx: "y = 900 * x + x * (200 / 9007199254740992)"
    by (simp add: y_def x_def)
  have "number_of (of_int (e * 1000)) = Fin (of_int (e * 1000))"
    using e by (intro number_of_whole) simp
  then have first: "num_mul (Fin (of_int e)) (Fin 1000) = Fin (of_int (e * 1000))"
    by simp
  have near: "nearest y = of_int (900 * e)"
  proof (cases "e = 0")
    case True
    then show ?thesis
      by (simp add: y_def nearest_def)
  next
    case False
    with e(1) have "0 < 900 * e"
      by simp
    moreover have "of_int (900 * e) \<le> y"
      using x0 by (simp add: yx x_def)
    moreover have "y < 2 ^ 53"
      using x0 x53 unfolding yx by simp
    moreover have "(y - of_int (900 * e)) * 2 ^ 54 \<le> y"
      using x0 by (simp add: yx x_def)
    ultimately show ?thesis
      by (rule nearest_near)
  qed
  have "\<bar>900 * e\<bar> < 2 ^ 53"
    using e by simp
  then have "(of_int \<bar>900 * e\<bar> :: rat) < of_int (2 ^ 53)"
    unfolding of_int_less_iff .
  then have "\<bar>nearest y\<bar> < 2 ^ 53"
    unfolding near by simp
  then have "number_of y = Fin (of_int (900 * e))"
    using number_of_small [of y] by (simp only: near)
  then have second: "num_mul (Fin (of_int (e * 1000))) (number_of (9 / 10)) = Fin (of_int (900 * e))"
    by (simp add: nine_tenths y_def)
  have "number_of (of_int (c + 900 * e)) = Fin (of_int (c + 900 * e))"
    using e c by (intro number_of_whole) simp
  then have third: "num_add (Fin (of_int c)) (Fin (of_int (900 * e))) = Fin (of_int (c + 900 * e))"
    by simp
  have "num_add (Fin (of_int c)) (num_mul (num_mul (Fin (of_int e)) (Fin 1000))
           (number_of (9 / 10))) = Fin (of_int (c + 900 * e))"
    by (simp only: first second third)
  then show ?thesis
    by simp
qed

text \<open>
  C3, as the code has it. When no valid token is cached and the token endpoint answers
  2xx with a body that parses to an object whose \<open>expires_in\<close> is a whole number \<open>e\<close>
  of seconds, the renewal stores the expiry \<open>now + 0.9 * e * 1000\<close> exactly, where
  \<open>now\<close> is the clock when the answer is stored, and it stores and returns the
  \<open>access_token\<close> of the body. The bounds keep the milliseconds of the lifetime and the
  expiry below \<open>2^53\<close>, where every whole number is a double.
\<close>

theorem getAccessToken_renewal_expiry:
  assumes miss: "\<not> (truthy (accessToken w) \<and> num_gt (tokenExpiryTime w) (Date_now w))"
    and reply: "outcome (server h (calls w) (token_request h)) = Responded response"
    and ok: "ok response"
    and body: "JSON_parse h (responseText response) = Inr (Obj kvs)"
    and lifetime: "map_of kvs ''expires_in'' = Some (Num (Fin (of_int e)))"
    and whole: "0 \<le> e" "e * 1000 < 2 ^ 53"
    and run: "getAccessToken h w = (r, w')"
    and now: "0 \<le> clock w'" "clock w' + 900 * e < 2 ^ 53"
  shows "tokenExpiryTime w' = Fin (of_int (clock w') + 9 / 10 * of_int e * 1000)
         \<and> r = Inr (accessToken w')
         \<and> accessToken w' = (case map_of kvs ''access_token'' of Some v \<Rightarrow> v | None \<Rightarrow> Undefined)"
proof -
  define c where "c = clock w + int (elapsed (server h (calls w) (token_request h)))"
  define stored where
    "stored = num_add (Fin (of_int c)) (num_mul (num_mul (Fin (of_int e)) (Fin 1000))
                (number_of (9 / 10)))"
  have "getAccessToken h w =
          (let w1 = w\<lparr>clock := c, calls := calls w @ [token_request h]\<rparr>;
               token = (case map_of kvs ''access_token'' of Some v \<Rightarrow> v | None \<Rightarrow> Undefined)
           in (Inr token, w1\<lparr>accessToken := token, tokenExpiryTime := stored\<rparr>))"
    unfolding c_def stored_def
    using renewal_granted [OF miss reply ok body]
    by (simp add: lifetime Let_def del: num_add.simps num_mul.simps)
  with run have w': "clock w' = c" "tokenExpiryTime w' = stored" "r = Inr (accessToken w')"
      "accessToken w' = (case map_of kvs ''access_token'' of Some v \<Rightarrow> v | None \<Rightarrow> Undefined)"
    by (auto simp: Let_def)
  from now have "0 \<le> c" "c + 900 * e < 2 ^ 53"
    by (simp_all only: w'(1))
  with whole have "stored = Fin (of_int c + 9 / 10 * of_int e * 1000)"
    unfolding stored_def by (intro expiry_whole)
  with w' show ?thesis
    by simp
qed

text \<open>A lifetime of 3600 seconds stored at \<open>T\<close> expires at \<open>T + 3,240,000\<close>.\<close>

theorem getAccessToken_renewal_expiry_witness:
  "tokenExpiryTime (snd (getAccessToken (demo_host server_up) world_expired))
     = Fin (of_int (clock (snd (getAccessToken (demo_host server_up) world_expired))) + 3240000)
   \<and> clock (snd (getAccessToken (demo_host server_up) world_expired)) = 1700000000250
   \<and> fst (getAccessToken (demo_host server_up) world_expired) = Inr (Str ''BQDfresh'')"
proof -
  let ?h = "demo_host server_up"
  obtain r w' where run: "getAccessToken ?h world_expired = (r, w')"
    by (cases "getAccessToken ?h world_expired")
  have miss: "\<not> (truthy (accessToken world_expired)
                 \<and> num_gt (tokenExpiryTime world_expired) (Date_now world_expired))"
    by (simp add: world_expired_def Date_now_def)
  have reply: "outcome (server ?h (calls world_expired) (token_request ?h))
                 = Responded \<lparr>status = 200, statusText = ''OK'', responseText = token_body\<rparr>"
    by (simp add: demo_host_def server_up_def token_request_def answer_def)
  have body: "JSON_parse ?h (responseText \<lparr>status = 200, statusText = ''OK'',
                 responseText = token_body\<rparr>)
              = Inr (Obj [(''access_token'', Str ''BQDfresh''), (''expires_in'', Num (Fin 3600))])"
    by (simp add: demo_host_def demo_parse_def token_json_def)
  have "clock w' = clock world_expired + int (elapsed (server ?h (calls world_expired)
                     (token_request ?h)))"
    using renewal_granted [OF miss reply _ body] run
    by (simp add: ok_def Let_def del: num_add.simps num_mul.simps)
  then have clock: "clock w' = 1700000000250"
    by (simp add: world_expired_def demo_host_def server_up_def token_request_def answer_def)
  have "tokenExpiryTime w' = Fin (of_int (clock w') + 9 / 10 * of_int 3600 * 1000)
         \<and> r = Inr (accessToken w')
         \<and> accessToken w' = (case map_of [(''access_token'', Str ''BQDfresh''),
               (''expires_in'', Num (Fin 3600))] ''access_token'' of Some v \<Rightarrow> v | None \<Rightarrow> Undefined)"
    by (rule getAccessToken_renewal_expiry [OF miss reply _ body _ _ _ run])
       (simp_all add: ok_def clock)
  with clock show ?thesis
    by (simp add: run)
qed

text \<open>
  The claim as it was stated fails on a lifetime that is not a whole number. The
  lifetime \<open>3600 + 2^-15\<close> is a double; at the clock 1700000000250 the exact expiry
  ends in \<open>225/8192\<close>, which no double at this magnitude does, and the stored expiry is
  the double that ends in \<open>7/256\<close>.
\<close>

theorem getAccessToken_renewal_expiry_counterexample:
  "JSON_parse (demo_host server_fraction) fraction_body
     = Inr (Obj [(''access_token'', Str ''BQDfresh''),
                 (''expires_in'', Num (Fin (3600 + 1 / 32768)))])
   \<and> nearest (3600 + 1 / 32768) = 3600 + 1 / 32768
   \<and> fst (getAccessToken (demo_host server_fraction) world_expired) = Inr (Str ''BQDfresh'')
   \<and> clock (snd (getAccessToken (demo_host server_fraction) world_expired)) = 1700000000250
   \<and> tokenExpiryTime (snd (getAccessToken (demo_host server_fraction) world_expired))
     = Fin (1700003240250 + 7 / 256)
   \<and> (1700000000250 + 9 / 10 * (3600 + 1 / 32768) * 1000 :: rat) = 1700003240250 + 225 / 8192
   \<and> Fin (1700003240250 + 7 / 256) \<noteq> Fin (1700000000250 + 9 / 10 * (3600 + 1 / 32768) * 1000)"
proof (intro conjI)
  show "JSON_parse (demo_host server_fraction) fraction_body
     = Inr (Obj [(''access_token'', Str ''BQDfresh''),
                 (''expires_in'', Num (Fin (3600 + 1 / 32768)))])"
    by (simp add: demo_host_def demo_parse_def fraction_json_def token_body_def
        fraction_body_def quoted_def dq_def)
  show "nearest (3600 + 1 / 32768) = 3600 + 1 / 32768"
    by code_simp
  have run: "getAccessToken (demo_host server_fraction) world_expired
      = (Inr (Str ''BQDfresh''),
         \<lparr>accessToken = Str ''BQDfresh'', tokenExpiryTime = Fin (1700003240250 + 7 / 256),
            clock = 1700000000250, calls = [token_request (demo_host server_fraction)]\<rparr>)"
    by code_simp
  show "fst (getAccessToken (demo_host server_fraction) world_expired) = Inr (Str ''BQDfresh'')"
    by (simp add: run)
  show "clock (snd (getAccessToken (demo_host server_fraction) world_expired)) = 1700000000250"
    by (simp add: run)
  show "tokenExpiryTime (snd (getAccessToken (demo_host server_fraction) world_expired))
     = Fin (1700003240250 + 7 / 256)"
    by (simp add: run)
  show "(1700000000250 + 9 / 10 * (3600 + 1 / 32768) * 1000 :: rat) = 1700003240250 + 225 / 8192"
    by simp
  show "Fin (1700003240250 + 7 / 256) \<noteq> Fin (1700000000250 + 9 / 10 * (3600 + 1 / 32768) * 1000)"
    by simp
qed

subsection \<open>The call-tool handler\<close>



lemma handler_no_arguments:
  "\<not> truthy (arguments req) \<Longrightarrow>
   CallToolRequestHandler h req w = (text_result ''Error: No arguments provided'' True, w)"
  by (simp add: CallToolRequestHandler_def call_tool_try_def throwA_def)

lemma handler_unknown:
  "truthy (arguments req) \<Longrightarrow> tool_name req \<notin> set tool_names \<Longrightarrow>
   CallToolRequestHandler h req w = (text_result (''Unknown tool: '' @ tool_name req) True, w)"
  by (simp add: CallToolRequestHandler_def call_tool_try_def tool_names_def returnA_def)




text \<open>
  C10. A request whose arguments are absent or \<open>null\<close> is answered with
  \<open>"Error: No arguments provided"\<close> whatever the tool name is: the test of the arguments
  comes before the switch over the name.
\<close>

theorem no_arguments_before_routing:
  assumes "arguments req = Undefined \<or> arguments req = Null"
  shows "CallToolRequestHandler h req w = (text_result ''Error: No arguments provided'' True, w)"
proof -
  from assms have "\<not> truthy (arguments req)"
    by auto
  then show ?thesis
    by (rule handler_no_arguments)
qed

theorem no_arguments_before_routing_witness:
  "CallToolRequestHandler (demo_host server_up)
     \<lparr>tool_name = ''spotify_delete_everything'', arguments = Null\<rparr> world_start
   = (\<lparr>content = [\<lparr>ctype = ''text'', ctext = ''Error: No arguments provided''\<rparr>],
       isError = True\<rparr>, world_start)
   \<and> ''spotify_delete_everything'' \<notin> set tool_names"
  using no_arguments_before_routing
    [of "\<lparr>tool_name = ''spotify_delete_everything'', arguments = Null\<rparr>" "demo_host server_up"
      world_start]
  by (simp add: text_result_def tool_names_def)

text \<open>
  C4, as the code has it. A request for a name that is none of the six tools gets a
  response with \<open>isError = true\<close> and leaves the world as it was, so no request is sent
  and the cache is not written. The text is \<open>"Unknown tool: "\<close> and the name when the
  request has arguments; without arguments it is \<open>"Error: No arguments provided"\<close>.
\<close>

theorem unknown_tool_response:
  assumes "tool_name req \<notin> set tool_names"
  shows "CallToolRequestHandler h req w =
           (text_result (if truthy (arguments req) then ''Unknown tool: '' @ tool_name req
                         else ''Error: No arguments provided'') True, w)"
  using assms handler_no_arguments [of req h w] handler_unknown [of req h w]
  by simp

theorem unknown_tool_response_witness:
  "CallToolRequestHandler (demo_host server_up)
     \<lparr>tool_name = ''spotify_play'', arguments = Obj []\<rparr> world_start
   = (\<lparr>content = [\<lparr>ctype = ''text'', ctext = ''Unknown tool: spotify_play''\<rparr>],
       isError = True\<rparr>, world_start)"
  using unknown_tool_response
    [of "\<lparr>tool_name = ''spotify_play'', arguments = Obj []\<rparr>" "demo_host server_up" world_start]
  by (simp add: text_result_def tool_names_def)

text \<open>
  The claim as it was stated fails on an unknown name without arguments: the text is not
  \<open>"Unknown tool: spotify_play"\<close>.
\<close>

theorem unknown_tool_counterexample:
  "''spotify_play'' \<notin> set tool_names \<and>
   ctext (hd (content (fst (CallToolRequestHandler (demo_host server_up)
      \<lparr>tool_name = ''spotify_play'', arguments = Undefined\<rparr> world_start))))
     = ''Error: No arguments provided'' \<and>
   ctext (hd (content (fst (CallToolRequestHandler (demo_host server_up)
      \<lparr>tool_name = ''spotify_play'', arguments = Undefined\<rparr> world_start))))
     \<noteq> ''Unknown tool: spotify_play''"
  by (simp add: handler_no_arguments text_result_def tool_names_def)

subsection \<open>searchTracks: the limit sent upstream\<close>

lemma Math_min_int:
  "Math_min h (Num (Fin (of_int n))) (of_int k) = Fin (of_int (min n k))"
  by (simp add: Math_min_def min_def)

lemma num_toString_whole:
  assumes "\<bar>k\<bar> < 2 ^ 53"
  shows "num_toString h (Fin (of_int k)) = int_toString k"
proof -
  have "(of_int \<bar>k\<bar> :: rat) < of_int (2 ^ 53)"
    unfolding of_int_less_iff using assms .
  then have "\<bar>of_int k :: rat\<bar> < 2 ^ 53"
    by simp
  then show ?thesis
    by (simp add: num_toString_def is_integer_def)
qed

lemma searchTracks_calls:
  assumes "getAccessToken h w = (Inr token, w1)"
  shows "calls (snd (searchTracks h query limit w))
           = calls w1 @ [search_request h token query (default_to (Num (Fin 10)) limit)]"
  using assms
  by (simp add: searchTracks_def Let_def bindA_def fetch_def throwA_def liftA_def
      split: fetch_result.splits sum.splits)

text \<open>
  C6, as the code has it. Once the credential is there, \<open>searchTracks\<close> sends one
  request, a \<open>GET\<close> to the search endpoint with the bearer token, and the \<open>limit\<close>
  parameter of that request is \<open>min(limit, 50)\<close> for a whole number \<open>limit\<close> of
  magnitude below \<open>2^53\<close>, and 10 when the limit is absent. There is an upper bound only.
\<close>

theorem searchTracks_limit_sent:
  assumes token: "getAccessToken h w = (Inr token, w1)" and n: "\<bar>n\<bar> < 2 ^ 53"
  shows "calls (snd (searchTracks h query (Num (Fin (of_int n))) w))
           = calls w1 @
             [\<lparr>http_method = ''GET'', url = ''https://api.spotify.com/v1/search'',
               searchParams = [(''q'', ToString h query), (''type'', ''track''),
                               (''limit'', int_toString (min n 50))],
               headers = [(''Authorization'', ''Bearer '' @ ToString h token)],
               payload = NoBody\<rparr>]
         \<and> calls (snd (searchTracks h query Undefined w))
           = calls w1 @
             [\<lparr>http_method = ''GET'', url = ''https://api.spotify.com/v1/search'',
               searchParams = [(''q'', ToString h query), (''type'', ''track''),
                               (''limit'', ''10'')],
               headers = [(''Authorization'', ''Bearer '' @ ToString h token)],
               payload = NoBody\<rparr>]"
proof -
  have "\<bar>min n 50\<bar> < 2 ^ 53"
    using n by (simp add: min_def abs_less_iff)
  then have "num_toString h (Fin (of_int (min n 50))) = int_toString (min n 50)"
    by (rule num_toString_whole)
  then have sent: "num_toString h (Math_min h (Num (Fin (of_int n))) 50) = int_toString (min n 50)"
    using Math_min_int [of h n 50] by simp
  have "int_toString 10 = ''10''"
    by code_simp
  then have absent: "num_toString h (Math_min h (Num (Fin 10)) 50) = ''10''"
    using Math_min_int [of h 10 50] num_toString_whole [of 10 h] by simp
  show ?thesis
    using searchTracks_calls [OF token, of query "Num (Fin (of_int n))"]
      searchTracks_calls [OF token, of query Undefined] sent absent
    by (simp add: search_request_def default_to_def bearer_def)
qed

text \<open>A limit of 75 is sent as 50.\<close>

theorem searchTracks_limit_sent_witness:
  "calls (snd (searchTracks (demo_host server_401) (Str ''jazz'') (Num (Fin 75)) world_cached))
     = [\<lparr>http_method = ''GET'', url = ''https://api.spotify.com/v1/search'',
         searchParams = [(''q'', ''jazz''), (''type'', ''track''), (''limit'', ''50'')],
         headers = [(''Authorization'', ''Bearer BQDcached'')],
         payload = NoBody\<rparr>]"
proof -
  let ?h = "demo_host server_401"
  have token: "getAccessToken ?h world_cached = (Inr (Str ''BQDcached''), world_cached)"
    by (simp add: getAccessToken_def world_cached_def Date_now_def)
  have "int_toString (min 75 50) = ''50''"
    by code_simp
  then show ?thesis
    using searchTracks_limit_sent [OF token, of 75 "Str ''jazz''"]
    by (simp add: world_cached_def)
qed

text \<open>
  The claim as it was stated fails below 1: a limit of 0 is sent as 0, where the
  interval from 1 to 50 would give 1.
\<close>

theorem searchTracks_limit_counterexample:
  "map_of (searchParams (last (calls (snd (searchTracks (demo_host server_401) (Str ''jazz'')
      (Num (Fin 0)) world_cached))))) ''limit'' = Some ''0''
   \<and> int_toString (max 1 (min 0 50)) = ''1''"
proof -
  let ?h = "demo_host server_401"
  have token: "getAccessToken ?h world_cached = (Inr (Str ''BQDcached''), world_cached)"
    by (simp add: getAccessToken_def world_cached_def Date_now_def)
  have zero: "num_toString ?h (Math_min ?h (Num (Fin 0)) 50) = ''0''"
    by (simp add: Math_min_def num_toString_def is_integer_def int_toString_def digits.simps
        digit_def)
  have one: "int_toString (max 1 (min 0 50)) = ''1''"
    by code_simp
  show ?thesis
    using searchTracks_calls [OF token, of "Str ''jazz''" "Num (Fin 0)"] zero one
    by (simp add: search_request_def default_to_def)
qed

subsection \<open>getRecommendations: the number of seeds\<close>

lemma js_plus_lengths:
  assumes "a + b < 2 ^ 53"
  shows "js_plus h (Num (Fin (of_nat a))) (Num (Fin (of_nat b))) = Num (Fin (of_nat (a + b)))"
proof -
  have "number_of (of_nat (a + b)) = Fin (of_nat (a + b))"
    using assms by (rule number_of_nat)
  then show ?thesis
    by (simp add: js_plus_def)
qed

lemma seed_count_arrays:
  assumes "length ts + length as + length gs < 2 ^ 53"
  shows "seed_count h (Arr ts) (Arr as) (Arr gs)
           = Inr (Num (Fin (of_nat (length ts + length as + length gs))))"
proof -
  have "length ts + length as < 2 ^ 53"
    using assms by simp
  then show ?thesis
    using assms
    by (simp add: seed_count_def bindE_def js_plus_lengths del: of_nat_add)
qed

lemma zero_seeds: "strict_eq_literal (Num (Fin (of_nat n))) 0 = (n = 0)"
  by (simp add: strict_eq_literal_def)

lemma many_seeds: "gt_literal h (Num (Fin (of_nat n))) 5 = (5 < n)"
proof -
  have "((5::rat) < of_nat n) = ((of_nat 5 :: rat) < of_nat n)"
    by simp
  also have "\<dots> = (5 < n)"
    by (simp only: of_nat_less_iff)
  finally show ?thesis
    by (simp add: gt_literal_def)
qed

text \<open>The function after the reading of its parameter, for seeds that are arrays.\<close>

lemma getRecommendations_arrays:
  assumes "get params ''seed_tracks'' = Inr v1" and "default_to (Arr []) v1 = Arr ts"
    and "get params ''seed_artists'' = Inr v2" and "default_to (Arr []) v2 = Arr as"
    and "get params ''seed_genres'' = Inr v3" and "default_to (Arr []) v3 = Arr gs"
    and "get params ''limit'' = Inr v4"
    and "get params ''target_energy'' = Inr target_energy"
    and "get params ''target_danceability'' = Inr target_danceability"
    and "get params ''target_tempo'' = Inr target_tempo"
    and "length ts + length as + length gs < 2 ^ 53"
  shows "getRecommendations h params w =
     (if length ts + length as + length gs = 0
      then (Inl (Error ''At least one seed track, artist, or genre is required''), w)
      else if 5 < length ts + length as + length gs
      then (Inl (Error
              ''You can only use a total of 5 seeds (tracks, artists, and genres combined)''), w)
      else
        bindA (getAccessToken h) (\<lambda>token.
        bindA (liftA (recommendations_params h (Arr ts) (Arr as) (Arr gs)
                        (default_to (Num (Fin 20)) v4)
                        target_energy target_danceability target_tempo)) (\<lambda>ps.
        bindA (fetch h (recommendations_request h token ps)) (\<lambda>response.
        if \<not> ok response then throwA (api_error response)
        else bindA (liftA (json h response)) (\<lambda>data.
             liftA (recommendations_text h (Arr ts) (Arr as) (Arr gs) data))))) w)"
  unfolding getRecommendations_def
  by (simp only: assms(1-10) bindA_liftA_Inr Let_def seed_count_arrays [OF assms(11)]
        zero_seeds many_seeds)
     (simp add: throwA_def)







subsection \<open>getPlaylistTracks: the header of a page\<close>

text \<open>
  C8 fails on the code. The upstream reports the number of tracks of a playlist as
  \<open>tracks.total\<close>, which is where \<open>getUserPlaylists\<close> reads it (\<open>playlist_line\<close>);
  \<open>getPlaylistTracks\<close> reads the property \<open>total\<close> of the playlist itself
  (\<open>playlist_tracks_text\<close>), which such a body does not have. On the second page of two
  tracks of a playlist of 42, read from offset 10, the header counts the page rightly
  and prints the total as \<open>undefined\<close>.
\<close>

theorem getPlaylistTracks_total_undefined:
  "JSON_parse (demo_host server_up) playlist_body = Inr playlist_json
   \<and> bindE (get playlist_json ''tracks'') (\<lambda>tracks. get tracks ''total'') = Inr (Num (Fin 42))
   \<and> get playlist_json ''total'' = Inr Undefined
   \<and> fst (getPlaylistTracks (demo_host server_up) (Str ''P1'') Undefined (Num (Fin 10))
            world_cached)
     = Inr (''Tracks in '' @ dq @ ''Road Trip'' @ dq @ '' (showing 11-12 of undefined):'' @ nl @ nl
            @ ''11. '' @ dq @ ''Song'' @ dq @ '' by Band'' @ nl
            @ ''   Album: Album'' @ nl
            @ ''   Duration: 2:05'' @ nl
            @ ''   Added at: 1/1/2024, 12:00:00 AM'' @ nl
            @ ''   Spotify URI: spotify:track:1'' @ nl
            @ ''   Track ID: 1'' @ nl
            @ ''  '' @ nl @ nl
            @ ''12. '' @ dq @ ''Song'' @ dq @ '' by Band'' @ nl
            @ ''   Album: Album'' @ nl
            @ ''   Duration: 2:05'' @ nl
            @ ''   Added at: 1/1/2024, 12:00:00 AM'' @ nl
            @ ''   Spotify URI: spotify:track:1'' @ nl
            @ ''   Track ID: 1'' @ nl
            @ ''  '')"
proof (intro conjI)
  show "JSON_parse (demo_host server_up) playlist_body = Inr playlist_json"
    by code_simp
  show "bindE (get playlist_json ''tracks'') (\<lambda>tracks. get tracks ''total'') = Inr (Num (Fin 42))"
    by (simp add: playlist_json_def bindE_def)
  show "get playlist_json ''total'' = Inr Undefined"
    by (simp add: playlist_json_def)
  show "fst (getPlaylistTracks (demo_host server_up) (Str ''P1'') Undefined (Num (Fin 10))
            world_cached)
     = Inr (''Tracks in '' @ dq @ ''Road Trip'' @ dq @ '' (showing 11-12 of undefined):'' @ nl @ nl
            @ ''11. '' @ dq @ ''Song'' @ dq @ '' by Band'' @ nl
            @ ''   Album: Album'' @ nl
            @ ''   Duration: 2:05'' @ nl
            @ ''   Added at: 1/1/2024, 12:00:00 AM'' @ nl
            @ ''   Spotify URI: spotify:track:1'' @ nl
            @ ''   Track ID: 1'' @ nl
            @ ''  '' @ nl @ nl
            @ ''12. '' @ dq @ ''Song'' @ dq @ '' by Band'' @ nl
            @ ''   Album: Album'' @ nl
            @ ''   Duration: 2:05'' @ nl
            @ ''   Added at: 1/1/2024, 12:00:00 AM'' @ nl
            @ ''   Spotify URI: spotify:track:1'' @ nl
            @ ''   Track ID: 1'' @ nl
            @ ''  '')"
    by code_simp
qed

subsection \<open>Replies that are not 2xx\<close>

lemma contains_empty: "contains s []"
  by (cases s) simp_all

lemma contains_prefix: "contains (t @ s) t"
  by (cases t) (simp_all add: contains_empty)

lemma contains_append: "contains (p @ t @ s) t"
proof (induction p)
  case Nil
  show ?case
    using contains_prefix [of t s] by simp
next
  case (Cons c p)
  then show ?case
    by simp
qed

lemma api_error_status: "contains (message (api_error r)) (digits (status r))"
  unfolding api_error_def message.simps by (rule contains_append)

lemma fetch_credentials: "fetch h rq w = (x, w') \<Longrightarrow> credentials w' = credentials w"
  by (auto simp: fetch_def Let_def credentials_def split: fetch_result.splits)

lemma refused_credentials: "refused h rq w r w' \<Longrightarrow> credentials w' = credentials w"
  unfolding refused_def by (blast dest: fetch_credentials)

lemma searchTracks_refused:
  assumes "getAccessToken h w = (Inr token, w1)"
    and "refused h (search_request h token query (default_to (Num (Fin 10)) limit)) w1 r w2"
  shows "searchTracks h query limit w = (Inl (api_error r), w2)"
  using assms
  by (simp add: searchTracks_def Let_def bindA_def throwA_def refused_def)

lemma getRecommendations_refused:
  assumes "get params ''seed_tracks'' = Inr v1" and "default_to (Arr []) v1 = Arr ts"
    and "get params ''seed_artists'' = Inr v2" and "default_to (Arr []) v2 = Arr as"
    and "get params ''seed_genres'' = Inr v3" and "default_to (Arr []) v3 = Arr gs"
    and "get params ''limit'' = Inr v4"
    and "get params ''target_energy'' = Inr target_energy"
    and "get params ''target_danceability'' = Inr target_danceability"
    and "get params ''target_tempo'' = Inr target_tempo"
    and "1 \<le> length ts + length as + length gs" and "length ts + length as + length gs \<le> 5"
    and "getAccessToken h w = (Inr token, w1)"
    and "recommendations_params h (Arr ts) (Arr as) (Arr gs) (default_to (Num (Fin 20)) v4)
           target_energy target_danceability target_tempo = Inr ps"
    and "refused h (recommendations_request h token ps) w1 r w2"
  shows "getRecommendations h params w = (Inl (api_error r), w2)"
proof -
  define n where "n = length ts + length as + length gs"
  have "length ts + length as + length gs < 2 ^ 53"
    using assms(12) by simp
  note run = getRecommendations_arrays [OF assms(1-10) this, of h w, folded n_def]
  have "n \<noteq> 0" "\<not> 5 < n"
    using assms(11,12) unfolding n_def by linarith+
  with assms(13-15) show ?thesis
    by (simp add: run bindA_def liftA_def throwA_def refused_def)
qed

lemma createPlaylist_refused_me:
  assumes "getAccessToken h w = (Inr token, w1)"
    and "refused h (me_request h token) w1 r w2"
  shows "createPlaylist h name description isPublic w = (Inl (api_error r), w2)"
  using assms
  by (simp add: createPlaylist_def Let_def bindA_def throwA_def refused_def)

lemma createPlaylist_refused_create:
  assumes "getAccessToken h w = (Inr token, w1)"
    and "fetch h (me_request h token) w1 = (Inr userResponse, w2)" and "ok userResponse"
    and "JSON_parse h (responseText userResponse) = Inr userData"
    and "get userData ''id'' = Inr userId"
    and "refused h (create_request h token userId name (default_to (Str []) description)
           (default_to (Bool False) isPublic)) w2 r w3"
  shows "createPlaylist h name description isPublic w = (Inl (api_error r), w3)"
  using assms
  by (simp add: createPlaylist_def Let_def bindA_def liftA_def throwA_def refused_def json_def)

lemma addTracksToPlaylist_refused:
  assumes "getAccessToken h w = (Inr token, w1)"
    and "refused h (add_tracks_request h token playlistId trackUris position) w1 r w2"
  shows "addTracksToPlaylist h playlistId trackUris position w = (Inl (api_error r), w2)"
  using assms
  by (simp add: addTracksToPlaylist_def bindA_def throwA_def refused_def)

lemma getUserPlaylists_refused:
  assumes "getAccessToken h w = (Inr token, w1)"
    and "js_toString h (default_to (Num (Fin 0)) offset) = Inr offset_string"
    and "refused h (playlists_request h token (default_to (Num (Fin 20)) limit) offset_string)
           w1 r w2"
  shows "getUserPlaylists h limit offset w = (Inl (api_error r), w2)"
  using assms
  by (simp add: getUserPlaylists_def Let_def bindA_def liftA_def throwA_def refused_def)

lemma getPlaylistTracks_refused_playlist:
  assumes "getAccessToken h w = (Inr token, w1)"
    and "refused h (playlist_request h token playlistId) w1 r w2"
  shows "getPlaylistTracks h playlistId limit offset w = (Inl (api_error r), w2)"
  using assms
  by (simp add: getPlaylistTracks_def Let_def bindA_def throwA_def refused_def)

lemma getPlaylistTracks_refused_tracks:
  assumes "getAccessToken h w = (Inr token, w1)"
    and "fetch h (playlist_request h token playlistId) w1 = (Inr playlistResponse, w2)"
    and "ok playlistResponse"
    and "JSON_parse h (responseText playlistResponse) = Inr playlistData"
    and "js_toString h (default_to (Num (Fin 0)) offset) = Inr offset_string"
    and "refused h (playlist_tracks_request h token playlistId (default_to (Num (Fin 50)) limit)
           offset_string) w2 r w3"
  shows "getPlaylistTracks h playlistId limit offset w = (Inl (api_error r), w3)"
  using assms
  by (simp add: getPlaylistTracks_def Let_def bindA_def liftA_def throwA_def refused_def json_def)

lemma renewal_refused:
  assumes miss: "\<not> (truthy (accessToken w) \<and> num_gt (tokenExpiryTime w) (Date_now w))"
    and "refused h (token_request h) w r w1"
  shows "getAccessToken h w =
           (Inl (Error (''Failed to get access token: '' @ digits (status r) @ '' ''
                        @ statusText r @ nl @ responseText r)), w1)"
  unfolding getAccessToken_def
  using assms(2) by (simp only: miss if_False) (simp add: refused_def)

lemma renewal_unparsed:
  assumes miss: "\<not> (truthy (accessToken w) \<and> num_gt (tokenExpiryTime w) (Date_now w))"
    and "fetch h (token_request h) w = (Inr r, w1)" and "ok r"
    and "JSON_parse h (responseText r) = Inl m"
  shows "getAccessToken h w = (Inl (SyntaxError m), w1)"
  unfolding getAccessToken_def
  using assms(2-4) by (simp only: miss if_False) simp

text \<open>
  C7, as the code has it. Every remote request of the six operations is followed by the
  test of \<open>response.ok\<close>: when a request is refused, the operation throws the error
  whose message holds the status code, the status text and the body, and the cached
  credential is the one the operation had when it sent the request (\<open>w1\<close> is the world
  after \<open>getAccessToken\<close>, which is the world of the call when the cached token is
  valid). A renewal that is refused throws an error with the status and the body and
  leaves the cached pair as it was. A renewal answered 2xx with a body that does not
  parse throws the error of the parser, with the message of the parser, and leaves the
  cached pair as it was.
\<close>

theorem refused_request_raises:
  "(getAccessToken h w = (Inr token, w1) \<and>
    refused h (search_request h token query (default_to (Num (Fin 10)) limit)) w1 r w2 \<longrightarrow>
      searchTracks h query limit w = (Inl (api_error r), w2) \<and> credentials w2 = credentials w1)
   \<and> (get params ''seed_tracks'' = Inr v1 \<and> default_to (Arr []) v1 = Arr ts \<and>
      get params ''seed_artists'' = Inr v2 \<and> default_to (Arr []) v2 = Arr as \<and>
      get params ''seed_genres'' = Inr v3 \<and> default_to (Arr []) v3 = Arr gs \<and>
      get params ''limit'' = Inr v4 \<and> get params ''target_energy'' = Inr target_energy \<and>
      get params ''target_danceability'' = Inr target_danceability \<and>
      get params ''target_tempo'' = Inr target_tempo \<and>
      1 \<le> length ts + length as + length gs \<and> length ts + length as + length gs \<le> 5 \<and>
      getAccessToken h w = (Inr token, w1) \<and>
      recommendations_params h (Arr ts) (Arr as) (Arr gs) (default_to (Num (Fin 20)) v4)
        target_energy target_danceability target_tempo = Inr ps \<and>
      refused h (recommendations_request h token ps) w1 r w2 \<longrightarrow>
        getRecommendations h params w = (Inl (api_error r), w2) \<and>
        credentials w2 = credentials w1)
   \<and> (getAccessToken h w = (Inr token, w1) \<and> refused h (me_request h token) w1 r w2 \<longrightarrow>
        createPlaylist h name description isPublic w = (Inl (api_error r), w2) \<and>
        credentials w2 = credentials w1)
   \<and> (getAccessToken h w = (Inr token, w1) \<and>
      fetch h (me_request h token) w1 = (Inr userResponse, w2) \<and> ok userResponse \<and>
      JSON_parse h (responseText userResponse) = Inr userData \<and>
      get userData ''id'' = Inr userId \<and>
      refused h (create_request h token userId name (default_to (Str []) description)
        (default_to (Bool False) isPublic)) w2 r w3 \<longrightarrow>
        createPlaylist h name description isPublic w = (Inl (api_error r), w3) \<and>
        credentials w3 = credentials w1)
   \<and> (getAccessToken h w = (Inr token, w1) \<and>
      refused h (add_tracks_request h token playlistId trackUris position) w1 r w2 \<longrightarrow>
        addTracksToPlaylist h playlistId trackUris position w = (Inl (api_error r), w2) \<and>
        credentials w2 = credentials w1)
   \<and> (getAccessToken h w = (Inr token, w1) \<and>
      js_toString h (default_to (Num (Fin 0)) offset) = Inr offset_string \<and>
      refused h (playlists_request h token (default_to (Num (Fin 20)) limit) offset_string)
        w1 r w2 \<longrightarrow>
        getUserPlaylists h limit offset w = (Inl (api_error r), w2) \<and>
        credentials w2 = credentials w1)
   \<and> (getAccessToken h w = (Inr token, w1) \<and>
      refused h (playlist_request h token playlistId) w1 r w2 \<longrightarrow>
        getPlaylistTracks h playlistId limit offset w = (Inl (api_error r), w2) \<and>
        credentials w2 = credentials w1)
   \<and> (getAccessToken h w = (Inr token, w1) \<and>
      fetch h (playlist_request h token playlistId) w1 = (Inr playlistResponse, w2) \<and>
      ok playlistResponse \<and>
      JSON_parse h (responseText playlistResponse) = Inr playlistData \<and>
      js_toString h (default_to (Num (Fin 0)) offset) = Inr offset_string \<and>
      refused h (playlist_tracks_request h token playlistId (default_to (Num (Fin 50)) limit)
        offset_string) w2 r w3 \<longrightarrow>
        getPlaylistTracks h playlistId limit offset w = (Inl (api_error r), w3) \<and>
        credentials w3 = credentials w1)
   \<and> message (api_error r)
       = ''Spotify API error: '' @ digits (status r) @ '' '' @ statusText r @ nl @ responseText r
   \<and> contains (message (api_error r)) (digits (status r))
   \<and> (truthy (accessToken w) \<and> num_gt (tokenExpiryTime w) (Date_now w) \<longrightarrow>
        getAccessToken h w = (Inr (accessToken w), w))
   \<and> (\<not> (truthy (accessToken w) \<and> num_gt (tokenExpiryTime w) (Date_now w)) \<and>
      refused h (token_request h) w r w1 \<longrightarrow>
        getAccessToken h w =
          (Inl (Error (''Failed to get access token: '' @ digits (status r) @ '' ''
                       @ statusText r @ nl @ responseText r)), w1) \<and>
        credentials w1 = credentials w)
   \<and> (\<not> (truthy (accessToken w) \<and> num_gt (tokenExpiryTime w) (Date_now w)) \<and>
      fetch h (token_request h) w = (Inr r, w1) \<and> ok r \<and>
      JSON_parse h (responseText r) = Inl m \<longrightarrow>
        getAccessToken h w = (Inl (SyntaxError m), w1) \<and> credentials w1 = credentials w)"
proof (intro conjI impI; (elim conjE)?)
  show "message (api_error r)
       = ''Spotify API error: '' @ digits (status r) @ '' '' @ statusText r @ nl @ responseText r"
    by (simp add: api_error_def)
  show "contains (message (api_error r)) (digits (status r))"
    by (rule api_error_status)
  show "getAccessToken h w = (Inr (accessToken w), w)"
    if "truthy (accessToken w)" and "num_gt (tokenExpiryTime w) (Date_now w)"
    using that by (simp add: getAccessToken_def)
qed (simp_all add: searchTracks_refused getRecommendations_refused createPlaylist_refused_me
      createPlaylist_refused_create addTracksToPlaylist_refused getUserPlaylists_refused
      getPlaylistTracks_refused_playlist getPlaylistTracks_refused_tracks renewal_refused
      renewal_unparsed refused_credentials fetch_credentials)

text \<open>
  A search answered 401, a page of tracks answered 403 after the playlist itself was
  served, a renewal answered 400, and a renewal answered 200 with an empty body.
\<close>

theorem refused_request_raises_witness:
  "fst (searchTracks (demo_host server_401) (Str ''jazz'') Undefined world_cached)
     = Inl (Error (''Spotify API error: 401 Unauthorized'' @ nl @ ''The access token expired''))
   \<and> credentials (snd (searchTracks (demo_host server_401) (Str ''jazz'') Undefined world_cached))
     = credentials world_cached
   \<and> fst (getPlaylistTracks (demo_host server_half) (Str ''P1'') Undefined Undefined world_cached)
     = Inl (Error (''Spotify API error: 403 Forbidden'' @ nl @ ''Insufficient client scope''))
   \<and> credentials (snd (getPlaylistTracks (demo_host server_half) (Str ''P1'') Undefined Undefined
         world_cached))
     = credentials world_cached
   \<and> fst (getAccessToken (demo_host server_400) world_expired)
     = Inl (Error (''Failed to get access token: 400 Bad Request'' @ nl @ ''invalid_grant''))
   \<and> credentials (snd (getAccessToken (demo_host server_400) world_expired))
     = credentials world_expired
   \<and> fst (getAccessToken (demo_host server_empty) world_expired)
     = Inl (SyntaxError ''Unexpected end of JSON input'')
   \<and> credentials (snd (getAccessToken (demo_host server_empty) world_expired))
     = credentials world_expired"
proof -
  let ?token = "Str ''BQDcached''"
  have codes: "digits 401 = ''401''" "digits 403 = ''403''" "digits 400 = ''400''"
      "digits 0 = ''0''"
    by code_simp+
  have token: "getAccessToken h world_cached = (Inr ?token, world_cached)" for h
    by (simp add: getAccessToken_def world_cached_def Date_now_def)
  have miss: "\<not> (truthy (accessToken world_expired)
                 \<and> num_gt (tokenExpiryTime world_expired) (Date_now world_expired))"
    by (simp add: world_expired_def Date_now_def)

  let ?h1 = "demo_host server_401"
  let ?rq1 = "search_request ?h1 ?token (Str ''jazz'') (default_to (Num (Fin 10)) Undefined)"
  let ?r1 = "\<lparr>status = 401, statusText = ''Unauthorized'',
              responseText = ''The access token expired''\<rparr>"
  let ?wa = "world_cached\<lparr>clock := clock world_cached + 250, calls := calls world_cached @ [?rq1]\<rparr>"
  have "refused ?h1 ?rq1 world_cached ?r1 ?wa"
    by (simp add: refused_def fetch_def demo_host_def server_401_def search_request_def
        answer_def ok_def)
  with token have search:
      "searchTracks ?h1 (Str ''jazz'') Undefined world_cached = (Inl (api_error ?r1), ?wa)
       \<and> credentials ?wa = credentials world_cached"
    by (intro refused_request_raises [where token = ?token, THEN conjunct1, THEN mp]) simp

  let ?h2 = "demo_host server_half"
  let ?rq2 = "playlist_request ?h2 ?token (Str ''P1'')"
  let ?wb = "world_cached\<lparr>clock := clock world_cached + 250, calls := calls world_cached @ [?rq2]\<rparr>"
  let ?rq3 = "playlist_tracks_request ?h2 ?token (Str ''P1'') (default_to (Num (Fin 50)) Undefined)
                ''0''"
  let ?r3 = "\<lparr>status = 403, statusText = ''Forbidden'',
              responseText = ''Insufficient client scope''\<rparr>"
  let ?wc = "?wb\<lparr>clock := clock ?wb + 250, calls := calls ?wb @ [?rq3]\<rparr>"
  have served: "fetch ?h2 ?rq2 world_cached
      = (Inr \<lparr>status = 200, statusText = ''OK'', responseText = playlist_body\<rparr>, ?wb)"
    by (simp add: fetch_def demo_host_def server_half_def playlist_request_def answer_def)
  have parsed: "JSON_parse ?h2 playlist_body = Inr playlist_json"
    by (simp add: demo_host_def demo_parse_def token_body_def fraction_body_def
        playlist_body_def quoted_def dq_def)
  have zero: "js_toString ?h2 (default_to (Num (Fin 0)) Undefined) = Inr ''0''"
    by (simp add: default_to_def num_toString_def is_integer_def int_toString_def codes)
  have "refused ?h2 ?rq3 ?wb ?r3 ?wc"
    by (simp add: refused_def fetch_def demo_host_def server_half_def
        playlist_tracks_request_def answer_def ok_def)
  with token served parsed zero have page:
      "getPlaylistTracks ?h2 (Str ''P1'') Undefined Undefined world_cached
         = (Inl (api_error ?r3), ?wc)
       \<and> credentials ?wc = credentials world_cached"
    by (intro refused_request_raises
          [where token = ?token and ?w2.0 = ?wb and playlistData = playlist_json
             and playlistResponse = "\<lparr>status = 200, statusText = ''OK'',
                                       responseText = playlist_body\<rparr>"
             and offset_string = "''0''",
           THEN conjunct2, THEN conjunct2, THEN conjunct2, THEN conjunct2, THEN conjunct2,
           THEN conjunct2, THEN conjunct2, THEN conjunct1, THEN mp])
       (simp add: ok_def)

  let ?h4 = "demo_host server_400"
  let ?r4 = "\<lparr>status = 400, statusText = ''Bad Request'', responseText = ''invalid_grant''\<rparr>"
  let ?wd = "world_expired\<lparr>clock := clock world_expired + 250,
               calls := calls world_expired @ [token_request ?h4]\<rparr>"
  have "refused ?h4 (token_request ?h4) world_expired ?r4 ?wd"
    by (simp add: refused_def fetch_def demo_host_def server_400_def answer_def ok_def)
  with miss have renewal:
      "getAccessToken ?h4 world_expired
         = (Inl (Error (''Failed to get access token: '' @ digits (status ?r4) @ '' ''
                        @ statusText ?r4 @ nl @ responseText ?r4)), ?wd)
       \<and> credentials ?wd = credentials world_expired"
    by (intro refused_request_raises
          [THEN conjunct2, THEN conjunct2, THEN conjunct2, THEN conjunct2, THEN conjunct2,
           THEN conjunct2, THEN conjunct2, THEN conjunct2, THEN conjunct2, THEN conjunct2,
           THEN conjunct2, THEN conjunct1, THEN mp])
       simp

  let ?h5 = "demo_host server_empty"
  let ?r5 = "\<lparr>status = 200, statusText = ''OK'', responseText = []\<rparr>"
  let ?we = "world_expired\<lparr>clock := clock world_expired + 250,
               calls := calls world_expired @ [token_request ?h5]\<rparr>"
  have "fetch ?h5 (token_request ?h5) world_expired = (Inr ?r5, ?we)"
    by (simp add: fetch_def demo_host_def server_empty_def answer_def)
  moreover have "JSON_parse ?h5 (responseText ?r5) = Inl ''Unexpected end of JSON input''"
    by (simp add: demo_host_def demo_parse_def token_body_def fraction_body_def
        playlist_body_def page_body_def)
  ultimately have unparsed:
      "getAccessToken ?h5 world_expired = (Inl (SyntaxError ''Unexpected end of JSON input''), ?we)
       \<and> credentials ?we = credentials world_expired"
    using miss
    by (intro refused_request_raises
          [where r = ?r5,
           THEN conjunct2, THEN conjunct2, THEN conjunct2, THEN conjunct2, THEN conjunct2,
           THEN conjunct2, THEN conjunct2, THEN conjunct2, THEN conjunct2, THEN conjunct2,
           THEN conjunct2, THEN conjunct2, THEN mp])
       (simp add: ok_def)
  from search page renewal unparsed show ?thesis
    by (simp add: api_error_def codes)
qed

text \<open>
  The claim as it was stated fails in two places. A renewal answered 200 with a body
  that is not JSON throws the error of the parser, and its message does not hold the
  status. And a search that finds the cached token expired renews it before the request
  that is answered 401, so the cached pair is not the one from before the call.
\<close>

theorem refused_request_counterexample:
  "fst (getAccessToken (demo_host server_empty) world_expired)
     = Inl (SyntaxError ''Unexpected end of JSON input'')
   \<and> outcome (server (demo_host server_empty) [] (token_request (demo_host server_empty)))
     = Responded \<lparr>status = 200, statusText = ''OK'', responseText = []\<rparr>
   \<and> \<not> contains ''Unexpected end of JSON input'' ''200''
   \<and> fst (searchTracks (demo_host server_401) (Str ''jazz'') Undefined world_expired)
     = Inl (Error (''Spotify API error: 401 Unauthorized'' @ nl @ ''The access token expired''))
   \<and> credentials world_expired = (Str ''BQDold'', Fin 1699999999000)
   \<and> credentials (snd (searchTracks (demo_host server_401) (Str ''jazz'') Undefined
         world_expired))
     = (Str ''BQDfresh'', Fin 1700003240250)"
proof -
  have "fst (getAccessToken (demo_host server_empty) world_expired)
          = Inl (SyntaxError ''Unexpected end of JSON input'')"
    by (simp add: getAccessToken_def world_expired_def Date_now_def fetch_def demo_host_def
        server_empty_def answer_def ok_def demo_parse_def token_body_def fraction_body_def
        playlist_body_def page_body_def)
  moreover have "\<not> contains ''Unexpected end of JSON input'' ''200''"
    by code_simp
  moreover have "searchTracks (demo_host server_401) (Str ''jazz'') Undefined world_expired
      = (Inl (Error (''Spotify API error: 401 Unauthorized'' @ nl @ ''The access token expired'')),
         \<lparr>accessToken = Str ''BQDfresh'', tokenExpiryTime = Fin 1700003240250,
            clock = 1700000000500,
            calls = [token_request (demo_host server_401),
                     search_request (demo_host server_401) (Str ''BQDfresh'') (Str ''jazz'')
                       (Num (Fin 10))]\<rparr>)"
    by code_simp
  ultimately show ?thesis
    by (simp add: demo_host_def server_empty_def answer_def credentials_def world_expired_def)
qed

end
